theory Spec2Isabelle
  imports Complex_Main "HOL-Library.Word"
begin

section \<open>Geometric controller of the multirotor (UavGeometryControl.cpp)\<close>

text \<open>
  The controller computes on \<^verbatim>\<open>double\<close>. In the state of the controller a
  \<^verbatim>\<open>double\<close> is read as a real number: the values are the finite ones and
  arithmetic is exact. A quotient \<open>0 / 0\<close> is a NaN in the program and \<open>0\<close> in HOL. The
  two tracking functions, where such a quotient decides what the program does, make it
  explicit: the thrust direction of a zero force is no vector at all, and attitude
  tracking computes the desired rotation and the angular-velocity error on a type that
  has the special values of a \<^verbatim>\<open>double\<close>, so that its guard against NaN is the
  comparison that the program makes. Elsewhere the divisors (the total mass, the motor
  constant, the vertical component of the body axis) are those of a vehicle in flight,
  which are not zero.
\<close>

subsection \<open>Fixed-size vectors and matrices (Eigen)\<close>

type_synonym vec3 = "real \<times> real \<times> real"
type_synonym mat3 = "vec3 \<times> vec3 \<times> vec3"
type_synonym vec4 = "real \<times> real \<times> real \<times> real"
type_synonym mat4 = "vec4 \<times> vec4 \<times> vec4 \<times> vec4"

text \<open>Coefficient access \<^verbatim>\<open>v(i, 0)\<close> and \<^verbatim>\<open>M(i, j)\<close>; a matrix is the triple of its rows.
  The source only uses literal indices inside the range.\<close>

fun v3 :: "vec3 \<Rightarrow> nat \<Rightarrow> real" where
  "v3 (a, b, c) i = (if i = 0 then a else if i = 1 then b else c)"

fun row3 :: "mat3 \<Rightarrow> nat \<Rightarrow> vec3" where
  "row3 (r0, r1, r2) i = (if i = 0 then r0 else if i = 1 then r1 else r2)"

definition m3 :: "mat3 \<Rightarrow> nat \<Rightarrow> nat \<Rightarrow> real" where
  "m3 M i j = v3 (row3 M i) j"

fun v3_set :: "vec3 \<Rightarrow> nat \<Rightarrow> real \<Rightarrow> vec3" where
  "v3_set (a, b, c) i x =
     (if i = 0 then (x, b, c) else if i = 1 then (a, x, c) else (a, b, x))"

fun m3_set :: "mat3 \<Rightarrow> nat \<Rightarrow> nat \<Rightarrow> real \<Rightarrow> mat3" where
  "m3_set (r0, r1, r2) i j x =
     (if i = 0 then (v3_set r0 j x, r1, r2)
      else if i = 1 then (r0, v3_set r1 j x, r2)
      else (r0, r1, v3_set r2 j x))"

fun v4 :: "vec4 \<Rightarrow> nat \<Rightarrow> real" where
  "v4 (a, b, c, d) i = (if i = 0 then a else if i = 1 then b else if i = 2 then c else d)"

definition zero3 :: vec3 where
  "zero3 = (0, 0, 0)"

definition zero33 :: mat3 where
  "zero33 = (zero3, zero3, zero3)"

fun vadd :: "vec3 \<Rightarrow> vec3 \<Rightarrow> vec3" where
  "vadd (a1, a2, a3) (b1, b2, b3) = (a1 + b1, a2 + b2, a3 + b3)"

fun vsub :: "vec3 \<Rightarrow> vec3 \<Rightarrow> vec3" where
  "vsub (a1, a2, a3) (b1, b2, b3) = (a1 - b1, a2 - b2, a3 - b3)"

fun vneg :: "vec3 \<Rightarrow> vec3" where
  "vneg (a1, a2, a3) = (- a1, - a2, - a3)"

fun smul :: "real \<Rightarrow> vec3 \<Rightarrow> vec3" where
  "smul k (a1, a2, a3) = (k * a1, k * a2, k * a3)"

fun vdiv :: "vec3 \<Rightarrow> real \<Rightarrow> vec3" where
  "vdiv (a1, a2, a3) k = (a1 / k, a2 / k, a3 / k)"

fun dot :: "vec3 \<Rightarrow> vec3 \<Rightarrow> real" where
  "dot (a1, a2, a3) (b1, b2, b3) = a1 * b1 + a2 * b2 + a3 * b3"

fun cross :: "vec3 \<Rightarrow> vec3 \<Rightarrow> vec3" where
  "cross (a1, a2, a3) (b1, b2, b3) =
     (a2 * b3 - a3 * b2, a3 * b1 - a1 * b3, a1 * b2 - a2 * b1)"

definition norm3 :: "vec3 \<Rightarrow> real" where
  "norm3 v = sqrt (dot v v)"

fun adjoint :: "mat3 \<Rightarrow> mat3" where
  "adjoint ((a, b, c), (d, e, f), (g, h, i)) = ((a, d, g), (b, e, h), (c, f, i))"

fun mv3 :: "mat3 \<Rightarrow> vec3 \<Rightarrow> vec3" where
  "mv3 (r0, r1, r2) v = (dot r0 v, dot r1 v, dot r2 v)"

fun vm3 :: "vec3 \<Rightarrow> mat3 \<Rightarrow> vec3" where
  "vm3 r (c0, c1, c2) = (dot r c0, dot r c1, dot r c2)"

fun mm3 :: "mat3 \<Rightarrow> mat3 \<Rightarrow> mat3" where
  "mm3 (r0, r1, r2) B = (vm3 r0 (adjoint B), vm3 r1 (adjoint B), vm3 r2 (adjoint B))"

fun madd :: "mat3 \<Rightarrow> mat3 \<Rightarrow> mat3" where
  "madd (a0, a1, a2) (b0, b1, b2) = (vadd a0 b0, vadd a1 b1, vadd a2 b2)"

fun msub :: "mat3 \<Rightarrow> mat3 \<Rightarrow> mat3" where
  "msub (a0, a1, a2) (b0, b1, b2) = (vsub a0 b0, vsub a1 b1, vsub a2 b2)"

fun mneg :: "mat3 \<Rightarrow> mat3" where
  "mneg (a0, a1, a2) = (vneg a0, vneg a1, vneg a2)"

fun mdiv :: "mat3 \<Rightarrow> real \<Rightarrow> mat3" where
  "mdiv (a0, a1, a2) k = (vdiv a0 k, vdiv a1 k, vdiv a2 k)"

text \<open>\<^verbatim>\<open>R_c << b1_c, b2_c, b3_desired\<close>: the three vectors become the columns.\<close>

definition from_columns :: "vec3 \<Rightarrow> vec3 \<Rightarrow> vec3 \<Rightarrow> mat3" where
  "from_columns c0 c1 c2 = adjoint (c0, c1, c2)"

fun dot4 :: "vec4 \<Rightarrow> vec4 \<Rightarrow> real" where
  "dot4 (a1, a2, a3, a4) (b1, b2, b3, b4) = a1 * b1 + a2 * b2 + a3 * b3 + a4 * b4"

fun mv4 :: "mat4 \<Rightarrow> vec4 \<Rightarrow> vec4" where
  "mv4 (r0, r1, r2, r3) v = (dot4 r0 v, dot4 r1 v, dot4 r2 v, dot4 r3 v)"

fun adjoint4 :: "mat4 \<Rightarrow> mat4" where
  "adjoint4 ((a0, a1, a2, a3), (b0, b1, b2, b3), (c0, c1, c2, c3), (d0, d1, d2, d3)) =
     ((a0, b0, c0, d0), (a1, b1, c1, d1), (a2, b2, c2, d2), (a3, b3, c3, d3))"

fun vm4 :: "vec4 \<Rightarrow> mat4 \<Rightarrow> vec4" where
  "vm4 r (c0, c1, c2, c3) = (dot4 r c0, dot4 r c1, dot4 r c2, dot4 r c3)"

fun mm4 :: "mat4 \<Rightarrow> mat4 \<Rightarrow> mat4" where
  "mm4 (r0, r1, r2, r3) B =
     (vm4 r0 (adjoint4 B), vm4 r1 (adjoint4 B), vm4 r2 (adjoint4 B), vm4 r3 (adjoint4 B))"

fun map4 :: "(real \<Rightarrow> real) \<Rightarrow> vec4 \<Rightarrow> vec4" where
  "map4 f (a, b, c, d) = (f a, f b, f c, f d)"

subsection \<open>Constants of the vehicle and helpers declared outside the controller\<close>

text \<open>
  The header with the physical constants (MmuavParameters.hpp) is not part of the
  sources at hand, so the constants it declares, the thrust transform it initialises and
  the three inertia tensors are parameters. The conversion from Euler angles to a
  rotation matrix (GeometricHelper.hpp) is a parameter too.
\<close>

record mmuav_params =
  UAV_MASS :: real
  MM_MASS :: real
  MM_FORCE :: real
  PAYLOAD_MASS :: real
  PAYLOAD_FORCE :: real
  TOTAL_LINK_MASS :: real
  ARM_LENGTH :: real
  MOTOR_CONSTANT :: real
  MAX_ROTOR_VELOCITY :: real
  G :: real
  THRUST_TRANSFORM_FULL :: mat4
  bodyInertia :: mat3
  movableMassInertia :: mat3
  payloadInertia :: mat3
  euler2RotationMatrix :: "real \<Rightarrow> real \<Rightarrow> real \<Rightarrow> mat3"

definition E3 :: vec3 where
  "E3 = (0, 0, 1)"

definition EYE3 :: mat3 where
  "EYE3 = ((1, 0, 0), (0, 1, 0), (0, 0, 1))"

text \<open>\<^verbatim>\<open>EYE4\<close> is not the identity: the constructor sets only the entries (0,0) and (3,3).\<close>

definition EYE4 :: mat4 where
  "EYE4 = ((1, 0, 0, 0), (0, 0, 0, 0), (0, 0, 0, 0), (0, 0, 0, 1))"

definition THRUST_TRANSFORM_YAW :: "mmuav_params \<Rightarrow> mat4" where
  "THRUST_TRANSFORM_YAW P = mm4 (THRUST_TRANSFORM_FULL P) EYE4"

definition POSITION_CONTROL :: int where
  "POSITION_CONTROL = 1"

definition ATTITUDE_CONTROL :: int where
  "ATTITUDE_CONTROL = 2"

definition VELOCITY_CONTROL :: int where
  "VELOCITY_CONTROL = 3"

definition DISCRETIZATION_RATE :: int where
  "DISCRETIZATION_RATE = 10"

text \<open>
  Modelled from the spec: \<^verbatim>\<open>nonlinear_filters::saturation\<close> (NonlinearFilters.hpp is
  missing). The specification says that it clamps, is idempotent and that its result
  lies between the two limits.
\<close>

definition saturation :: "real \<Rightarrow> real \<Rightarrow> real \<Rightarrow> real" where
  "saturation val lowLimit highLimit =
     (if val > highLimit then highLimit
      else if val < lowLimit then lowLimit
      else val)"

text \<open>\<^verbatim>\<open>hatOperator\<close>, as the earlier revision of the controller in the repository has it.\<close>

definition hatOperator :: "real \<Rightarrow> real \<Rightarrow> real \<Rightarrow> mat3" where
  "hatOperator x y z = ((0, - z, y), (z, 0, - x), (- y, x, 0))"

text \<open>
  Modelled from the spec: \<^verbatim>\<open>geom_helper::veeOperator\<close> (GeometricHelper.hpp is missing).
  The specification makes it the left inverse of the hat map; it reads the three entries
  below and right of the diagonal that the hat map fills with \<open>x\<close>, \<open>y\<close>, \<open>z\<close>.
\<close>

definition veeOperator :: "mat3 \<Rightarrow> vec3" where
  "veeOperator M = (m3 M 2 1, m3 M 0 2, m3 M 1 0)"

subsection \<open>Rotor allocation\<close>

definition calculateRotorVelocities :: "mmuav_params \<Rightarrow> vec4 \<Rightarrow> mat4 \<Rightarrow> vec4" where
  "calculateRotorVelocities P thrust_moment_vec transform_matrix =
     (let rotor_velocities = mv4 transform_matrix thrust_moment_vec;
          rotor_signs = map4 sgn rotor_velocities;
          rotor_velocities = map4 abs rotor_velocities;
          rotor_velocities = map4 (\<lambda>x. x / MOTOR_CONSTANT P) rotor_velocities;
          rotor_velocities = map4 sqrt rotor_velocities
      in (v4 rotor_signs 0 *
            saturation (v4 rotor_velocities 0) (- MAX_ROTOR_VELOCITY P) (MAX_ROTOR_VELOCITY P),
          v4 rotor_signs 1 *
            saturation (v4 rotor_velocities 1) (- MAX_ROTOR_VELOCITY P) (MAX_ROTOR_VELOCITY P),
          v4 rotor_signs 2 *
            saturation (v4 rotor_velocities 2) (- MAX_ROTOR_VELOCITY P) (MAX_ROTOR_VELOCITY P),
          v4 rotor_signs 3 *
            saturation (v4 rotor_velocities 3) (- MAX_ROTOR_VELOCITY P) (MAX_ROTOR_VELOCITY P)))"

subsection \<open>Messages, telemetry and the controller object\<close>

text \<open>
  The members of the class carry the name they have in the source without its final
  underscore (\<^verbatim>\<open>uav_mass_\<close> is \<open>uav_mass\<close>), which the term language does not accept.
\<close>

datatype error = runtime_error string

text \<open>The request of the dynamic reconfiguration service (the eight gain parameters).\<close>

record UavGeometryControlParamsConfig =
  kx_xy :: real
  kx_z :: real
  kv_xy :: real
  kv_z :: real
  kR_xy :: real
  kR_z :: real
  kOm_xy :: real
  kOm_z :: real

text \<open>
  The part of \<^verbatim>\<open>status_msg_\<close> that the control law computes. The remaining fields of the
  telemetry message are copies of fields of the controller (positions, set points, rates,
  Euler angles) and of the clock, and are left out.
\<close>

record GeomCtlStatus =
  status_force :: real
  status_att_err :: real
  status_pos_err :: real
  status_moments :: vec3
  status_e_x :: vec3
  status_e_v :: vec3
  status_b1_d :: vec3
  status_e_R :: vec3
  status_e_omega :: vec3
  status_rotor_velocities :: vec4
  status_mass_offset :: vec4
  status_r_cm :: vec3

text \<open>What the controller sends: one constructor for each publisher, for the
  error log and for the configuration pushed back to the reconfiguration server.\<close>

datatype message =
    Actuators vec4
  | MassCommand nat real
  | PayloadPosition real real
  | Status GeomCtlStatus
  | RosError string
  | UpdateConfig UavGeometryControlParamsConfig

record controller =
  controller_rate :: int
  imu_start_flag :: bool
  pose_start_flag :: bool
  velocity_start_flag :: bool
  param_start_flag :: bool
  enable_mass_control :: bool
  enable_manipulator_control :: bool
  calc_desired_flag :: bool
  current_control_mode :: int
  uav_mass :: real
  inertia :: mat3
  mass_inertia :: mat3
  payload_inertia :: mat3
  k_x :: mat3
  k_v :: mat3
  k_R :: mat3
  k_omega :: mat3
  x_d :: vec3
  v_d :: vec3
  a_d :: vec3
  x_mv :: vec3
  v_mv :: vec3
  omega_d :: vec3
  alpha_d :: vec3
  b1_d :: vec3
  R_d :: mat3
  euler_d :: vec3
  euler_mv :: vec3
  euler_rate_mv :: vec3
  omega_mv :: vec3
  R_mv :: mat3
  R_c_old :: mat3
  R_c_dot_old :: mat3
  ro_cm :: vec3
  mass0_mv :: real
  mass1_mv :: real
  mass2_mv :: real
  mass3_mv :: real
  gripperLeft_mv :: vec3
  gripperRight_mv :: vec3
  status_msg :: GeomCtlStatus
  published :: "message list"

definition publish :: "message \<Rightarrow> controller \<Rightarrow> controller" where
  "publish m s = s\<lparr>published := published s @ [m]\<rparr>"

fun msmul :: "real \<Rightarrow> mat3 \<Rightarrow> mat3" where
  "msmul k (a0, a1, a2) = (smul k a0, smul k a1, smul k a2)"

definition diag3 :: "real \<Rightarrow> real \<Rightarrow> real \<Rightarrow> mat3" where
  "diag3 a b c = m3_set (m3_set (m3_set zero33 0 0 a) 1 1 b) 2 2 c"

definition trace3 :: "mat3 \<Rightarrow> real" where
  "trace3 M = m3 M 0 0 + m3 M 1 1 + m3 M 2 2"

subsection \<open>Construction\<close>

text \<open>
  \<^verbatim>\<open>setInitialValues\<close> and the constructor assign some of the members and leave the others
  as they are in memory (\<^verbatim>\<open>enable_manipulator_control_\<close>, \<^verbatim>\<open>calc_desired_flag_\<close>, the
  centre of mass, the feedback of the masses and grippers), so both are updates of a
  controller given beforehand.

  \<^verbatim>\<open>setInitialValues\<close> copies the global matrix \<^verbatim>\<open>EYE3\<close> into the measured rotation and
  into the previous desired rotation. It reads the global as it is at that moment, which
  is its argument here. The constructor calls it before it fills \<^verbatim>\<open>EYE3\<close>; a global matrix
  of fixed size starts with all entries zero, so what the controller of the process
  stores is the zero matrix.
\<close>

definition setInitialValues :: "mat3 \<Rightarrow> controller \<Rightarrow> controller" where
  "setInitialValues EYE3_now s = s\<lparr>
     imu_start_flag := False,
     pose_start_flag := False,
     velocity_start_flag := False,
     param_start_flag := False,
     enable_mass_control := False,
     current_control_mode := POSITION_CONTROL,
     x_d := zero3, v_d := zero3, a_d := zero3,
     x_mv := zero3, v_mv := zero3,
     omega_d := zero3, alpha_d := zero3,
     b1_d := v3_set zero3 0 1,
     R_d := zero33,
     euler_d := zero3,
     omega_mv := zero3,
     R_mv := EYE3_now,
     R_c_old := EYE3_now,
     R_c_dot_old := zero33\<rparr>"

definition UavGeometryControl :: "mmuav_params \<Rightarrow> int \<Rightarrow> controller \<Rightarrow> controller" where
  "UavGeometryControl P rate s0 =
     (let s = setInitialValues zero33 (s0\<lparr>controller_rate := rate\<rparr>)
      in s\<lparr>inertia := bodyInertia P,
            mass_inertia := movableMassInertia P,
            payload_inertia := payloadInertia P,
            uav_mass := UAV_MASS P,
            k_x := diag3 7.2 7.2 50,
            k_v := diag3 2.6 2.6 20,
            k_R := diag3 1.52 1.52 12,
            k_omega := diag3 0.65 0.65 1.54\<rparr>)"

definition enableMassControl :: "mmuav_params \<Rightarrow> controller \<Rightarrow> controller" where
  "enableMassControl P s = s\<lparr>
     enable_mass_control := True,
     enable_manipulator_control := False,
     uav_mass := uav_mass s + 4 * MM_MASS P\<rparr>"

definition enableManipulatorControl :: "mmuav_params \<Rightarrow> controller \<Rightarrow> controller" where
  "enableManipulatorControl P s = s\<lparr>
     enable_manipulator_control := True,
     enable_mass_control := False,
     uav_mass := uav_mass s + (2 * PAYLOAD_MASS P + TOTAL_LINK_MASS P)\<rparr>"

subsection \<open>Callbacks\<close>

text \<open>The mode arrives as a signed byte (\<^verbatim>\<open>std_msgs::Int8\<close>) and is stored as an \<^verbatim>\<open>int\<close>.\<close>

definition ctl_mode_cb :: "8 word \<Rightarrow> controller \<Rightarrow> controller" where
  "ctl_mode_cb msg s = s\<lparr>current_control_mode := sint msg\<rparr>"


text \<open>
  The desired rotation arrives as an array of nine numbers, by rows. The program reads
  the first nine entries whatever the length of the array; reading past its end has no
  defined result, and the callback has none here.
\<close>

definition rd_cb :: "real list \<Rightarrow> controller \<Rightarrow> controller option" where
  "rd_cb data s =
     (if length data < 9 then None
      else Some (s\<lparr>R_d := ((data ! 0, data ! 1, data ! 2),
                            (data ! 3, data ! 4, data ! 5),
                            (data ! 6, data ! 7, data ! 8))\<rparr>))"

text \<open>
  The library function \<^verbatim>\<open>atan2\<close> on finite arguments, and \<^verbatim>\<open>quaternion2euler\<close> as the
  earlier revision of the controller has it; the quaternion is the array
  \<^verbatim>\<open>(w, x, y, z)\<close>. The program takes the arc sine of a value that rounding can put
  outside \<open>[-1, 1]\<close>, where it is a NaN and \<open>arcsin\<close> is not specified.
\<close>

definition atan2 :: "real \<Rightarrow> real \<Rightarrow> real" where
  "atan2 y x =
     (if 0 < x then arctan (y / x)
      else if x < 0 then (if 0 \<le> y then arctan (y / x) + pi else arctan (y / x) - pi)
      else if 0 < y then pi / 2
      else if y < 0 then - (pi / 2)
      else 0)"

definition quaternion2euler :: "real \<times> real \<times> real \<times> real \<Rightarrow> vec3" where
  "quaternion2euler quaternion =
     (atan2 (2 * (v4 quaternion 0 * v4 quaternion 1 + v4 quaternion 2 * v4 quaternion 3))
            (1 - 2 * (v4 quaternion 1 * v4 quaternion 1 + v4 quaternion 2 * v4 quaternion 2)),
      arcsin (2 * (v4 quaternion 0 * v4 quaternion 2 - v4 quaternion 3 * v4 quaternion 1)),
      atan2 (2 * (v4 quaternion 0 * v4 quaternion 3 + v4 quaternion 1 * v4 quaternion 2))
            (1 - 2 * (v4 quaternion 2 * v4 quaternion 2 + v4 quaternion 3 * v4 quaternion 3)))"

text \<open>The orientation \<open>(x, y, z, w)\<close> and the angular velocity of an IMU message.\<close>

definition imu_cb ::
  "mmuav_params \<Rightarrow> real \<times> real \<times> real \<times> real \<Rightarrow> vec3 \<Rightarrow> controller \<Rightarrow> controller" where
  "imu_cb P orientation angular_velocity s =
     (let quaternion = (v4 orientation 3, v4 orientation 0, v4 orientation 1, v4 orientation 2);
          euler = quaternion2euler quaternion;
          p = v3 angular_velocity 0;
          q = v3 angular_velocity 1;
          r = v3 angular_velocity 2;
          sx = sin (v3 euler 0);
          cx = cos (v3 euler 0);
          cy = cos (v3 euler 1);
          ty = tan (v3 euler 1);
          euler_rate = (p + sx * ty * q + cx * ty * r,
                        cx * q - sx * r,
                        sx / cy * q + cx / cy * r)
      in s\<lparr>imu_start_flag := True,
            euler_mv := euler,
            euler_rate_mv := euler_rate,
            omega_mv := euler_rate,
            R_mv := euler2RotationMatrix P (v3 euler 0) (v3 euler 1) (v3 euler 2)\<rparr>)"

definition mass0_cb :: "mmuav_params \<Rightarrow> real \<Rightarrow> controller \<Rightarrow> controller" where
  "mass0_cb P process_value s = s\<lparr>mass0_mv := ARM_LENGTH P / 2.0 + process_value\<rparr>"

definition mass1_cb :: "mmuav_params \<Rightarrow> real \<Rightarrow> controller \<Rightarrow> controller" where
  "mass1_cb P process_value s = s\<lparr>mass1_mv := ARM_LENGTH P / 2.0 + process_value\<rparr>"

definition mass2_cb :: "mmuav_params \<Rightarrow> real \<Rightarrow> controller \<Rightarrow> controller" where
  "mass2_cb P process_value s = s\<lparr>mass2_mv := ARM_LENGTH P / 2.0 + process_value\<rparr>"

definition mass3_cb :: "mmuav_params \<Rightarrow> real \<Rightarrow> controller \<Rightarrow> controller" where
  "mass3_cb P process_value s = s\<lparr>mass3_mv := ARM_LENGTH P / 2.0 + process_value\<rparr>"

definition gripperLeft_cb :: "vec3 \<Rightarrow> controller \<Rightarrow> controller" where
  "gripperLeft_cb msg s =
     s\<lparr>gripperLeft_mv := v3_set (v3_set (v3_set (gripperLeft_mv s) 0 (v3 msg 0)) 1 (v3 msg 1)) 2 (v3 msg 2)\<rparr>"

definition gripperRight_cb :: "vec3 \<Rightarrow> controller \<Rightarrow> controller" where
  "gripperRight_cb msg s =
     s\<lparr>gripperRight_mv := v3_set (v3_set (v3_set (gripperRight_mv s) 0 (v3 msg 0)) 1 (v3 msg 1)) 2 (v3 msg 2)\<rparr>"

definition param_cb ::
  "UavGeometryControlParamsConfig \<Rightarrow> controller \<Rightarrow> UavGeometryControlParamsConfig \<times> controller" where
  "param_cb config s =
     (if \<not> param_start_flag s then
        (let config = config\<lparr>
               kx_xy := m3 (k_x s) 0 0,
               kx_z := m3 (k_x s) 2 2,
               kv_xy := m3 (k_v s) 0 0,
               kv_z := m3 (k_v s) 2 2,
               kR_xy := m3 (k_R s) 0 0,
               kR_z := m3 (k_R s) 2 2,
               kOm_xy := m3 (k_omega s) 0 0,
               kOm_z := m3 (k_omega s) 2 2\<rparr>
         in (config, publish (UpdateConfig config) (s\<lparr>param_start_flag := True\<rparr>)))
      else
        (config, s\<lparr>
           k_x := m3_set (m3_set (m3_set (k_x s) 0 0 (kx_xy config)) 1 1 (kx_xy config)) 2 2 (kx_z config),
           k_v := m3_set (m3_set (m3_set (k_v s) 0 0 (kv_xy config)) 1 1 (kv_xy config)) 2 2 (kv_z config),
           k_R := m3_set (m3_set (m3_set (k_R s) 0 0 (kR_xy config)) 1 1 (kR_xy config)) 2 2 (kR_z config),
           k_omega := m3_set (m3_set (m3_set (k_omega s) 0 0 (kOm_xy config)) 1 1 (kOm_xy config)) 2 2 (kOm_z config)\<rparr>))"

text \<open>A run of the callback over the requests that arrive, in order.\<close>

fun param_cb_all :: "UavGeometryControlParamsConfig list \<Rightarrow> controller \<Rightarrow> controller" where
  "param_cb_all [] s = s"
| "param_cb_all (config # rest) s = param_cb_all rest (snd (param_cb config s))"

subsection \<open>Centre of mass and inertia\<close>

definition calculateCenterOfMass :: "mmuav_params \<Rightarrow> controller \<Rightarrow> controller" where
  "calculateCenterOfMass P s =
     (if enable_mass_control s then
        (let ro = v3_set (ro_cm s) 0
                    ((MM_MASS P * mass0_mv s + MM_MASS P * (- mass2_mv s)) / uav_mass s);
             ro = v3_set ro 1
                    ((MM_MASS P * mass1_mv s + MM_MASS P * (- mass3_mv s)) / uav_mass s);
             ro = v3_set ro 2 0
         in s\<lparr>ro_cm := ro\<rparr>)
      else if enable_manipulator_control s then
        s\<lparr>ro_cm := vdiv (vadd (smul (PAYLOAD_MASS P) (gripperLeft_mv s))
                                (smul (PAYLOAD_MASS P) (gripperRight_mv s)))
                          (uav_mass s)\<rparr>
      else
        s\<lparr>ro_cm := v3_set (v3_set (v3_set (ro_cm s) 0 0) 1 0) 2 0\<rparr>)"

definition calculateAdjustedInertia :: "mmuav_params \<Rightarrow> controller \<Rightarrow> mat3" where
  "calculateAdjustedInertia P s =
     (let adjustedInertia = inertia s
      in if enable_mass_control s then
           (let adjustedInertia = m3_set adjustedInertia 0 0
                  (m3 adjustedInertia 0 0
                   + mass1_mv s * mass1_mv s * MM_MASS P
                   + mass3_mv s * mass3_mv s * MM_MASS P
                   + m3 (mass_inertia s) 0 0);
                adjustedInertia = m3_set adjustedInertia 1 1
                  (m3 adjustedInertia 1 1
                   + mass0_mv s * mass0_mv s * MM_MASS P
                   + mass2_mv s * mass2_mv s * MM_MASS P
                   + m3 (mass_inertia s) 1 1);
                adjustedInertia = m3_set adjustedInertia 2 2
                  (m3 adjustedInertia 2 2
                   + mass1_mv s * mass1_mv s * MM_MASS P
                   + mass3_mv s * mass3_mv s * MM_MASS P
                   + mass0_mv s * mass0_mv s * MM_MASS P
                   + mass2_mv s * mass2_mv s * MM_MASS P
                   + 4 * m3 (mass_inertia s) 2 2)
            in adjustedInertia)
         else if enable_manipulator_control s then
           (let gl = gripperLeft_mv s; gr = gripperRight_mv s;
                adjustedInertia = m3_set adjustedInertia 0 0
                  (m3 adjustedInertia 0 0
                   + (v3 gl 1 * v3 gl 1 + v3 gl 2 * v3 gl 2) * PAYLOAD_MASS P
                   + (v3 gr 1 * v3 gr 1 + v3 gl 2 * v3 gr 2) * PAYLOAD_MASS P
                   + 2 * m3 (payload_inertia s) 0 0);
                adjustedInertia = m3_set adjustedInertia 1 1
                  (m3 adjustedInertia 1 1
                   + (v3 gl 0 * v3 gl 0 + v3 gl 2 * v3 gl 2) * PAYLOAD_MASS P * 2
                   + (v3 gr 0 * v3 gr 0 + v3 gl 2 * v3 gr 2) * PAYLOAD_MASS P
                   + 2 * m3 (payload_inertia s) 1 1);
                adjustedInertia = m3_set adjustedInertia 2 2
                  (m3 adjustedInertia 2 2
                   + (v3 gl 0 * v3 gl 0 + v3 gl 0 * v3 gl 0) * PAYLOAD_MASS P * 2
                   + (v3 gr 2 * v3 gr 2 + v3 gl 2 * v3 gr 2) * PAYLOAD_MASS P
                   + 2 * m3 (payload_inertia s) 2 2)
            in adjustedInertia)
         else adjustedInertia)"


subsection \<open>The special values of a double\<close>

text \<open>
  A \<^verbatim>\<open>double\<close> with its special values: a finite value, one of the two infinities, or a
  NaN. Finite arithmetic is exact (no rounding, no overflow, one zero); the special
  values follow IEEE 754: a NaN operand gives a NaN, so do \<open>\<infinity> - \<infinity>\<close>, \<open>0 \<cdot> \<infinity>\<close>, \<open>0 / 0\<close>,
  \<open>\<infinity> / \<infinity>\<close> and the square root of a negative value, and \<^verbatim>\<open>!=\<close> holds whenever one side
  is a NaN, also between a NaN and itself.
\<close>

datatype double = Finite real | PosInf | NegInf | NaN

fun is_finite :: "double \<Rightarrow> bool" where
  "is_finite (Finite x) = True"
| "is_finite d = False"

fun is_nan :: "double \<Rightarrow> bool" where
  "is_nan NaN = True"
| "is_nan d = False"

fun d_neg :: "double \<Rightarrow> double" where
  "d_neg (Finite x) = Finite (- x)"
| "d_neg PosInf = NegInf"
| "d_neg NegInf = PosInf"
| "d_neg NaN = NaN"

fun d_add :: "double \<Rightarrow> double \<Rightarrow> double" where
  "d_add NaN b = NaN"
| "d_add a NaN = NaN"
| "d_add (Finite x) (Finite y) = Finite (x + y)"
| "d_add (Finite x) b = b"
| "d_add a (Finite y) = a"
| "d_add PosInf PosInf = PosInf"
| "d_add NegInf NegInf = NegInf"
| "d_add PosInf NegInf = NaN"
| "d_add NegInf PosInf = NaN"

definition d_sub :: "double \<Rightarrow> double \<Rightarrow> double" where
  "d_sub a b = d_add a (d_neg b)"

text \<open>The sign of an infinite product, or NaN for a zero factor.\<close>

definition d_inf_times :: "bool \<Rightarrow> real \<Rightarrow> double" where
  "d_inf_times positive x =
     (if x = 0 then NaN else if (0 < x) = positive then PosInf else NegInf)"

fun d_mul :: "double \<Rightarrow> double \<Rightarrow> double" where
  "d_mul NaN b = NaN"
| "d_mul a NaN = NaN"
| "d_mul (Finite x) (Finite y) = Finite (x * y)"
| "d_mul (Finite x) PosInf = d_inf_times True x"
| "d_mul (Finite x) NegInf = d_inf_times False x"
| "d_mul PosInf (Finite y) = d_inf_times True y"
| "d_mul NegInf (Finite y) = d_inf_times False y"
| "d_mul PosInf PosInf = PosInf"
| "d_mul NegInf NegInf = PosInf"
| "d_mul PosInf NegInf = NegInf"
| "d_mul NegInf PosInf = NegInf"

fun d_div :: "double \<Rightarrow> double \<Rightarrow> double" where
  "d_div NaN b = NaN"
| "d_div a NaN = NaN"
| "d_div (Finite x) (Finite y) =
     (if y = 0 then (if x = 0 then NaN else if 0 < x then PosInf else NegInf)
      else Finite (x / y))"
| "d_div (Finite x) b = Finite 0"
| "d_div PosInf (Finite y) = (if 0 \<le> y then PosInf else NegInf)"
| "d_div NegInf (Finite y) = (if 0 \<le> y then NegInf else PosInf)"
| "d_div a b = NaN"

fun d_sqrt :: "double \<Rightarrow> double" where
  "d_sqrt (Finite x) = (if x < 0 then NaN else Finite (sqrt x))"
| "d_sqrt PosInf = PosInf"
| "d_sqrt d = NaN"

text \<open>The comparison \<^verbatim>\<open>a != b\<close>.\<close>

definition d_ne :: "double \<Rightarrow> double \<Rightarrow> bool" where
  "d_ne a b = (is_nan a \<or> is_nan b \<or> a \<noteq> b)"

type_synonym dvec3 = "double \<times> double \<times> double"
type_synonym dmat3 = "dvec3 \<times> dvec3 \<times> dvec3"

fun dv3 :: "dvec3 \<Rightarrow> nat \<Rightarrow> double" where
  "dv3 (a, b, c) i = (if i = 0 then a else if i = 1 then b else c)"

fun d_dot :: "dvec3 \<Rightarrow> dvec3 \<Rightarrow> double" where
  "d_dot (a1, a2, a3) (b1, b2, b3) = d_add (d_add (d_mul a1 b1) (d_mul a2 b2)) (d_mul a3 b3)"

fun d_vsub :: "dvec3 \<Rightarrow> dvec3 \<Rightarrow> dvec3" where
  "d_vsub (a1, a2, a3) (b1, b2, b3) = (d_sub a1 b1, d_sub a2 b2, d_sub a3 b3)"

fun d_adjoint :: "dmat3 \<Rightarrow> dmat3" where
  "d_adjoint ((a, b, c), (d, e, f), (g, h, i)) = ((a, d, g), (b, e, h), (c, f, i))"

fun d_mv3 :: "dmat3 \<Rightarrow> dvec3 \<Rightarrow> dvec3" where
  "d_mv3 (r0, r1, r2) v = (d_dot r0 v, d_dot r1 v, d_dot r2 v)"

fun d_vm3 :: "dvec3 \<Rightarrow> dmat3 \<Rightarrow> dvec3" where
  "d_vm3 r (c0, c1, c2) = (d_dot r c0, d_dot r c1, d_dot r c2)"

fun d_mm3 :: "dmat3 \<Rightarrow> dmat3 \<Rightarrow> dmat3" where
  "d_mm3 (r0, r1, r2) B = (d_vm3 r0 (d_adjoint B), d_vm3 r1 (d_adjoint B), d_vm3 r2 (d_adjoint B))"

fun d_vneg :: "dvec3 \<Rightarrow> dvec3" where
  "d_vneg (a1, a2, a3) = (d_neg a1, d_neg a2, d_neg a3)"

fun d_vdiv :: "dvec3 \<Rightarrow> double \<Rightarrow> dvec3" where
  "d_vdiv (a1, a2, a3) k = (d_div a1 k, d_div a2 k, d_div a3 k)"

fun d_cross :: "dvec3 \<Rightarrow> dvec3 \<Rightarrow> dvec3" where
  "d_cross (a1, a2, a3) (b1, b2, b3) =
     (d_sub (d_mul a2 b3) (d_mul a3 b2),
      d_sub (d_mul a3 b1) (d_mul a1 b3),
      d_sub (d_mul a1 b2) (d_mul a2 b1))"

definition d_norm :: "dvec3 \<Rightarrow> double" where
  "d_norm v = d_sqrt (d_dot v v)"

definition d_from_columns :: "dvec3 \<Rightarrow> dvec3 \<Rightarrow> dvec3 \<Rightarrow> dmat3" where
  "d_from_columns c0 c1 c2 = d_adjoint (c0, c1, c2)"


text \<open>
  The finite values of the controller as doubles, and back. The way back is taken only
  from values that are finite (this is \<open>attitudeTracking_values_finite\<close> below); for
  the sake of totality it sends the special values to \<open>0\<close>.
\<close>

fun to_double3 :: "vec3 \<Rightarrow> dvec3" where
  "to_double3 (a, b, c) = (Finite a, Finite b, Finite c)"

fun to_double33 :: "mat3 \<Rightarrow> dmat3" where
  "to_double33 (r0, r1, r2) = (to_double3 r0, to_double3 r1, to_double3 r2)"

fun to_real :: "double \<Rightarrow> real" where
  "to_real (Finite x) = x"
| "to_real d = 0"

fun to_real3 :: "dvec3 \<Rightarrow> vec3" where
  "to_real3 (a, b, c) = (to_real a, to_real b, to_real c)"

fun to_real33 :: "dmat3 \<Rightarrow> mat3" where
  "to_real33 (r0, r1, r2) = (to_real3 r0, to_real3 r1, to_real3 r2)"

fun finite3 :: "dvec3 \<Rightarrow> bool" where
  "finite3 (a, b, c) = (is_finite a \<and> is_finite b \<and> is_finite c)"

fun finite33 :: "dmat3 \<Rightarrow> bool" where
  "finite33 (r0, r1, r2) = (finite3 r0 \<and> finite3 r1 \<and> finite3 r2)"

text \<open>
  The thrust direction that trajectory tracking hands to attitude tracking: a vector, or
  the result of dividing the zero vector by its norm, which is a NaN in each component.
\<close>

fun thrust_direction :: "vec3 option \<Rightarrow> dvec3" where
  "thrust_direction None = (NaN, NaN, NaN)"
| "thrust_direction (Some v) = to_double3 v"

text \<open>
  The first part of \<^verbatim>\<open>attitudeTracking\<close>, on doubles. In position mode the desired
  rotation is built from the thrust direction and the heading (the projected heading
  \<open>b1_c\<close> goes to the status message); in attitude mode it is the rotation of the desired
  Euler angles, which is an argument here; any other mode has none. Then come the two
  statements that compute the angular-velocity error from the measured rotation and
  rate and the desired rotation and rate, and test its first component.
\<close>

definition desired_rotation ::
  "int \<Rightarrow> dvec3 \<Rightarrow> dvec3 \<Rightarrow> dmat3 \<Rightarrow> (dvec3 option \<times> dmat3) option" where
  "desired_rotation mode b1_desired b3_desired R_euler =
     (if mode = POSITION_CONTROL then
        (let b13_normal = d_cross b3_desired b1_desired;
             b1_c = d_vdiv (d_vneg (d_cross b3_desired b13_normal)) (d_norm b13_normal);
             b2_c = d_cross b3_desired b1_c;
             b2_c = d_vdiv b2_c (d_norm b2_c)
         in Some (Some b1_c, d_from_columns b1_c b2_c b3_desired))
      else if mode = ATTITUDE_CONTROL then Some (None, R_euler)
      else None)"

definition angular_velocity_error :: "dmat3 \<Rightarrow> dmat3 \<Rightarrow> dvec3 \<Rightarrow> dvec3 \<Rightarrow> dvec3" where
  "angular_velocity_error R_mv' R_d' omega_mv' omega_d' =
     d_vsub omega_mv' (d_mv3 (d_mm3 (d_adjoint R_mv') R_d') omega_d')"

definition angular_velocity_guard :: "dvec3 \<Rightarrow> error + dvec3" where
  "angular_velocity_guard e_omega =
     (if d_ne (dv3 e_omega 0) (dv3 e_omega 0) then
        Inl (runtime_error ''Angular velocity error is NAN'')
      else Inr e_omega)"

subsection \<open>Trajectory tracking\<close>

text \<open>
  A function that can throw returns either the exception together with the controller as
  it is when the exception leaves the function, or its outputs and the controller.

  The desired thrust direction is \<^verbatim>\<open>A / A.norm()\<close>. When the norm is zero, \<open>A\<close> is the zero
  vector and every component of the quotient is \<open>0 / 0\<close>: the program hands on a vector of
  NaNs, the model \<open>None\<close>.
\<close>

definition trajectoryTracking ::
  "mmuav_params \<Rightarrow> vec3 \<Rightarrow> controller \<Rightarrow>
     (error \<times> controller) + (vec3 option \<times> real \<times> controller)" where
  "trajectoryTracking P pos_desired s =
     (case (if current_control_mode s = POSITION_CONTROL then
              Some (vsub (x_mv s) pos_desired, vsub (v_mv s) (v_d s))
            else if current_control_mode s = ATTITUDE_CONTROL then
              Some (smul (v3 (x_mv s) 2 - v3 pos_desired 2) E3,
                    smul (v3 (v_mv s) 2 - v3 (v_d s) 2) E3)
            else None) of
        None \<Rightarrow>
          Inl (runtime_error ''Invalid control mode given.'',
               publish (RosError ''Invalid control mode given.'') s)
      | Some (e_x, e_v) \<Rightarrow>
          (let A = vadd (vadd (vsub (mv3 (mneg (k_x s)) e_x) (mv3 (k_v s) e_v))
                              (smul (uav_mass s * G P) E3))
                        (smul (uav_mass s) (a_d s));
               A = (if enable_mass_control s \<or> enable_manipulator_control s then
                      (let skew_omega = hatOperator (v3 (omega_mv s) 0) (v3 (omega_mv s) 1) (v3 (omega_mv s) 2);
                           skew_ro = hatOperator (v3 (ro_cm s) 0) (v3 (ro_cm s) 1) (v3 (ro_cm s) 2);
                           additionalDynamics =
                             vsub (smul (- uav_mass s) (cross (mv3 (R_mv s) (ro_cm s)) (alpha_d s)))
                                  (mv3 (mm3 (mm3 (msmul (uav_mass s) (R_mv s)) skew_omega) skew_ro)
                                       (omega_mv s))
                       in vadd A additionalDynamics)
                    else A);
               f_u = dot A (mv3 (R_mv s) E3);
               b3_d = (if norm3 A = 0 then None else Some (vdiv A (norm3 A)))
           in Inr (b3_d, f_u,
                   s\<lparr>status_msg := (status_msg s)\<lparr>status_e_x := e_x, status_e_v := e_v\<rparr>\<rparr>)))"

subsection \<open>Attitude tracking\<close>

text \<open>
  Attitude tracking computes the desired rotation and the angular-velocity error on
  doubles, from the finite values of the controller, so that a quotient \<open>0 / 0\<close> (a
  heading parallel to the thrust direction, or no thrust direction) is the NaN that it is
  in the program, and the guard is the program's comparison of the first component with
  itself. Behind the guard the values are finite and the computation goes on with reals.

  When the guard throws, the members \<^verbatim>\<open>R_d_\<close> and \<^verbatim>\<open>status_msg_.b1_d\<close> hold NaNs in the
  program. No real number stands for a NaN, so the controller that goes with this
  exception has the two members as they were before the call; the exception ends the
  process and nothing reads them.
\<close>

definition attitudeTracking ::
  "mmuav_params \<Rightarrow> vec3 \<Rightarrow> vec3 option \<Rightarrow> controller \<Rightarrow> (error \<times> controller) + (vec3 \<times> controller)" where
  "attitudeTracking P b1_desired b3_desired s =
     (case desired_rotation (current_control_mode s)
             (to_double3 b1_desired) (thrust_direction b3_desired)
             (to_double33
                (euler2RotationMatrix P (v3 (euler_d s) 0) (v3 (euler_d s) 1) (v3 (euler_d s) 2))) of
        None \<Rightarrow>
          Inl (runtime_error ''Invalid control mode given.'',
               publish (RosError ''Invalid control mode given.'') s)
      | Some (b1_c, R_c) \<Rightarrow>
          (case angular_velocity_guard
                  (angular_velocity_error (to_double33 (R_mv s)) R_c
                     (to_double3 (omega_mv s)) (to_double3 (omega_d s))) of
             Inl ex \<Rightarrow> Inl (ex, s)
           | Inr e_omega_checked \<Rightarrow>
               (let s = (case b1_c of
                           Some b \<Rightarrow> s\<lparr>status_msg := (status_msg s)\<lparr>status_b1_d := to_real3 b\<rparr>\<rparr>
                         | None \<Rightarrow> s);
                    s = s\<lparr>R_d := to_real33 R_c\<rparr>;
                    e_R_skew = mdiv (msub (mm3 (adjoint (R_d s)) (R_mv s)) (mm3 (adjoint (R_mv s)) (R_d s))) 2;
                    e_R = veeOperator e_R_skew;
                    e_omega = to_real3 e_omega_checked;
                    omega_mv_skew = hatOperator (v3 (omega_mv s) 0) (v3 (omega_mv s) 1) (v3 (omega_mv s) 2);
                    adjustedInertia = calculateAdjustedInertia P s;
                    additionalDynamics = zero3;
                    additionalDynamics =
                      (if enable_manipulator_control s \<or> enable_mass_control s then
                         smul (uav_mass s) (cross (ro_cm s) (mv3 (adjoint (R_mv s)) (a_d s)))
                       else additionalDynamics);
                    M_u = vadd
                            (vsub
                               (vadd
                                  (vsub (mv3 (mneg (k_R s)) e_R) (mv3 (k_omega s) e_omega))
                                  (cross (omega_mv s) (mv3 adjustedInertia (omega_mv s))))
                               (mv3 adjustedInertia
                                  (vsub (mv3 (mm3 (mm3 omega_mv_skew (adjoint (R_mv s))) (R_d s)) (omega_d s))
                                        (mv3 (mm3 (adjoint (R_mv s)) (R_d s)) (alpha_d s)))))
                            additionalDynamics;
                    M_u = v3_set M_u 0 (saturation (v3 M_u 0) (- 5) 5);
                    M_u = v3_set M_u 1 (saturation (v3 M_u 1) (- 5) 5);
                    M_u = v3_set M_u 2 (saturation (v3 M_u 2) (- 2.5) 2.5)
                in Inr (M_u,
                        s\<lparr>status_msg := (status_msg s)\<lparr>status_e_R := e_R, status_e_omega := e_omega\<rparr>\<rparr>))))"

subsection \<open>Desired angular velocity and acceleration\<close>

definition calculateDesiredAngularVelAndAcc :: "real \<Rightarrow> controller \<Rightarrow> controller" where
  "calculateDesiredAngularVelAndAcc t_d s =
     (if \<not> calc_desired_flag s \<or> current_control_mode s \<noteq> POSITION_CONTROL then s
      else
        (let R_c_dot = mdiv (msub (R_d s) (R_c_old s)) t_d;
             omega_c_skew = mm3 (adjoint (R_d s)) R_c_dot;
             R_c_ddot = mdiv (msub R_c_dot (R_c_dot_old s)) t_d;
             alpha_c_skew = madd (mm3 (mneg omega_c_skew) omega_c_skew) (mm3 (adjoint (R_d s)) R_c_ddot);
             omega_d' = veeOperator omega_c_skew;
             alpha_d' = veeOperator alpha_c_skew;
             alpha_d' = v3_set alpha_d' 0 (saturation (v3 alpha_d' 0) (- 0.5) 0.5);
             alpha_d' = v3_set alpha_d' 1 (saturation (v3 alpha_d' 1) (- 0.5) 0.5);
             alpha_d' = v3_set alpha_d' 2 (saturation (v3 alpha_d' 2) (- 0.5) 0.5)
         in s\<lparr>omega_d := omega_d',
               alpha_d := alpha_d',
               R_c_old := R_d s,
               R_c_dot_old := R_c_dot,
               calc_desired_flag := False\<rparr>))"

subsection \<open>Publishing\<close>

definition publishControlInputs :: "mmuav_params \<Rightarrow> real \<Rightarrow> vec3 \<Rightarrow> controller \<Rightarrow> controller" where
  "publishControlInputs P f_u M_u s =
     (let thrust_moment_vec = (f_u, v3 M_u 0, v3 M_u 1, v3 M_u 2);
          (rotor_velocities, s) =
            (if enable_mass_control s then
               (let rotor_velocities = calculateRotorVelocities P thrust_moment_vec (THRUST_TRANSFORM_YAW P);
                    dx = v3 M_u 1 / (2 * MM_FORCE P * dot E3 (mv3 (R_mv s) E3));
                    dy = v3 M_u 0 / (2 * MM_FORCE P * dot E3 (mv3 (R_mv s) E3));
                    dx = saturation dx (- ARM_LENGTH P / 2) (ARM_LENGTH P / 2);
                    dy = saturation dy (- ARM_LENGTH P / 2) (ARM_LENGTH P / 2);
                    s = publish (MassCommand 0 dx) s;
                    s = publish (MassCommand 1 (- dy)) s;
                    s = publish (MassCommand 2 (- dx)) s;
                    s = publish (MassCommand 3 dy) s
                in (rotor_velocities, s))
             else if enable_manipulator_control s then
               (let rotor_velocities = calculateRotorVelocities P thrust_moment_vec (THRUST_TRANSFORM_YAW P);
                    dx = v3 M_u 1 / (2 * PAYLOAD_FORCE P * dot E3 (mv3 (R_mv s) E3));
                    dy = v3 M_u 0 / (2 * PAYLOAD_FORCE P * dot E3 (mv3 (R_mv s) E3));
                    dx = saturation dx (- 0.15) 0.15;
                    dy = saturation dy (- 0.15) 0.15;
                    s = publish (PayloadPosition dx (- dy)) s
                in (rotor_velocities, s))
             else
               (calculateRotorVelocities P thrust_moment_vec (THRUST_TRANSFORM_FULL P), s));
          s = publish (Actuators rotor_velocities) s
      in s\<lparr>status_msg := (status_msg s)\<lparr>status_rotor_velocities := rotor_velocities\<rparr>\<rparr>)"

definition publishStatusMessage :: "real \<Rightarrow> vec3 \<Rightarrow> controller \<Rightarrow> controller" where
  "publishStatusMessage f_u M_u s =
     (let att_err = msub EYE3 (mm3 (adjoint (R_d s)) (R_mv s));
          st = (status_msg s)\<lparr>
                 status_force := f_u,
                 status_att_err := trace3 att_err / 2,
                 status_pos_err := sqrt (dot (vsub (x_d s) (x_mv s)) (vsub (x_d s) (x_mv s))),
                 status_moments := M_u\<rparr>;
          st = (if enable_mass_control s then
                  st\<lparr>status_mass_offset := (mass0_mv s, mass1_mv s, mass2_mv s, mass3_mv s)\<rparr>
                else st);
          st = st\<lparr>status_r_cm := ro_cm s\<rparr>
      in publish (Status st) (s\<lparr>status_msg := st\<rparr>))"

subsection \<open>One iteration of the control loop\<close>

text \<open>
  The variables of \<^verbatim>\<open>runControllerLoop\<close> that live across iterations. One iteration is
  what the loop does after \<^verbatim>\<open>ros::spinOnce()\<close>; it reads the clock twice. A controller rate
  of zero makes the period infinite in the program, so that no time step ever passes the
  gate; the model says so, since in HOL \<open>1 / 0 = 0\<close>.
\<close>

record loop_vars =
  t_old :: real
  b1_old :: vec3
  desiredCounter :: real

definition desiredTimeInterval :: real where
  "desiredTimeInterval = 1.0 / real_of_int DISCRETIZATION_RATE"

definition runControllerLoop_iteration ::
  "mmuav_params \<Rightarrow> real \<Rightarrow> real \<Rightarrow> loop_vars \<times> controller \<Rightarrow>
     (error \<times> controller) + (loop_vars \<times> controller)" where
  "runControllerLoop_iteration P current_time time_now Ls =
     (let L = fst Ls; s = snd Ls;
          dt = current_time - t_old L
      in if controller_rate s = 0 \<or> dt < 1.0 / real_of_int (controller_rate s) then Inr (L, s)
         else
           (let L = L\<lparr>desiredCounter := desiredCounter L + dt\<rparr>;
                (L, s) =
                  (if desiredCounter L \<ge> desiredTimeInterval then
                     (L\<lparr>desiredCounter := 0.0\<rparr>,
                      calculateDesiredAngularVelAndAcc desiredTimeInterval (s\<lparr>calc_desired_flag := True\<rparr>))
                   else (L, s));
                L = L\<lparr>t_old := time_now\<rparr>;
                s = calculateCenterOfMass P s;
                b1_des = vadd (b1_old L) (smul 0.05 (vsub (b1_d s) (b1_old L)))
            in case trajectoryTracking P (x_d s) s of
                 Inl ex \<Rightarrow> Inl ex
               | Inr (b3_d, f_u, s) \<Rightarrow>
                   (let L = L\<lparr>b1_old := b1_des\<rparr>
                    in case attitudeTracking P b1_des b3_d s of
                         Inl ex \<Rightarrow> Inl ex
                       | Inr (M_u, s) \<Rightarrow>
                           (let s = publishControlInputs P f_u M_u s;
                                s = publishStatusMessage f_u M_u s
                            in Inr (L, s)))))"

text \<open>The rotor commands among the messages sent.\<close>

fun is_Actuators :: "message \<Rightarrow> bool" where
  "is_Actuators (Actuators v) = True"
| "is_Actuators m = False"

definition rotor_commands :: "controller \<Rightarrow> message list" where
  "rotor_commands s = filter is_Actuators (published s)"

subsection \<open>Concrete parameters and controllers for the examples\<close>

text \<open>A small vehicle with round numbers, and the memory of a controller before construction.\<close>

definition example_params :: mmuav_params where
  "example_params = \<lparr>
     UAV_MASS = 2, MM_MASS = 1 / 4, MM_FORCE = 1, PAYLOAD_MASS = 1 / 2, PAYLOAD_FORCE = 1,
     TOTAL_LINK_MASS = 1, ARM_LENGTH = 1 / 2, MOTOR_CONSTANT = 1, MAX_ROTOR_VELOCITY = 1,
     G = 10,
     THRUST_TRANSFORM_FULL =
       ((1 / 4, 0, - (1 / 2), 1 / 4),
        (1 / 4, 1 / 2, 0, - (1 / 4)),
        (1 / 4, 0, 1 / 2, 1 / 4),
        (1 / 4, - (1 / 2), 0, - (1 / 4))),
     bodyInertia = ((1 / 10, 0, 0), (0, 1 / 10, 0), (0, 0, 1 / 5)),
     movableMassInertia = ((1 / 100, 0, 0), (0, 1 / 100, 0), (0, 0, 1 / 100)),
     payloadInertia = ((1 / 50, 0, 0), (0, 1 / 50, 0), (0, 0, 1 / 50)),
     euler2RotationMatrix = (\<lambda>roll pitch yaw.
       ((cos yaw * cos pitch,
         cos yaw * sin pitch * sin roll - sin yaw * cos roll,
         cos yaw * sin pitch * cos roll + sin yaw * sin roll),
        (sin yaw * cos pitch,
         sin yaw * sin pitch * sin roll + cos yaw * cos roll,
         sin yaw * sin pitch * cos roll - cos yaw * sin roll),
        (- sin pitch, cos pitch * sin roll, cos pitch * cos roll)))\<rparr>"

definition zero_status :: GeomCtlStatus where
  "zero_status = \<lparr>
     status_force = 0, status_att_err = 0, status_pos_err = 0, status_moments = zero3,
     status_e_x = zero3, status_e_v = zero3, status_b1_d = zero3, status_e_R = zero3,
     status_e_omega = zero3, status_rotor_velocities = (0, 0, 0, 0),
     status_mass_offset = (0, 0, 0, 0), status_r_cm = zero3\<rparr>"

definition zero_memory :: controller where
  "zero_memory = \<lparr>
     controller_rate = 0, imu_start_flag = False, pose_start_flag = False,
     velocity_start_flag = False, param_start_flag = False, enable_mass_control = False,
     enable_manipulator_control = False, calc_desired_flag = False, current_control_mode = 0,
     uav_mass = 0, inertia = zero33, mass_inertia = zero33, payload_inertia = zero33,
     k_x = zero33, k_v = zero33, k_R = zero33, k_omega = zero33,
     x_d = zero3, v_d = zero3, a_d = zero3, x_mv = zero3, v_mv = zero3,
     omega_d = zero3, alpha_d = zero3, b1_d = zero3, R_d = zero33, euler_d = zero3,
     euler_mv = zero3, euler_rate_mv = zero3,
     omega_mv = zero3, R_mv = zero33, R_c_old = zero33, R_c_dot_old = zero33,
     ro_cm = zero3, mass0_mv = 0, mass1_mv = 0, mass2_mv = 0, mass3_mv = 0,
     gripperLeft_mv = zero3, gripperRight_mv = zero3,
     status_msg = zero_status, published = []\<rparr>"

definition example_controller :: controller where
  "example_controller = UavGeometryControl example_params 100 zero_memory"

text \<open>The first column of a transform: the share of the thrust that each rotor gets.\<close>

fun column0 :: "mat4 \<Rightarrow> vec4" where
  "column0 ((a0, a1, a2, a3), (b0, b1, b2, b3), (c0, c1, c2, c3), (d0, d1, d2, d3)) =
     (a0, b0, c0, d0)"

text \<open>The controller that an iteration of the loop leaves behind, thrown or not.\<close>

fun controller_after :: "(error \<times> controller) + (loop_vars \<times> controller) \<Rightarrow> controller" where
  "controller_after (Inl (ex, s)) = s"
| "controller_after (Inr (L, s)) = s"

text \<open>The four gain matrices of a controller, those that a request asks for, and
  the gain matrices whose entries off the diagonal are zero.\<close>

definition is_diagonal :: "mat3 \<Rightarrow> bool" where
  "is_diagonal K = (K = diag3 (m3 K 0 0) (m3 K 1 1) (m3 K 2 2))"

definition gains :: "controller \<Rightarrow> mat3 \<times> mat3 \<times> mat3 \<times> mat3" where
  "gains s = (k_x s, k_v s, k_R s, k_omega s)"

definition gains_of_config :: "UavGeometryControlParamsConfig \<Rightarrow> mat3 \<times> mat3 \<times> mat3 \<times> mat3" where
  "gains_of_config config =
     (diag3 (kx_xy config) (kx_xy config) (kx_z config),
      diag3 (kv_xy config) (kv_xy config) (kv_z config),
      diag3 (kR_xy config) (kR_xy config) (kR_z config),
      diag3 (kOm_xy config) (kOm_xy config) (kOm_z config))"

definition gains_diagonal :: "controller \<Rightarrow> bool" where
  "gains_diagonal s =
     (is_diagonal (k_x s) \<and> is_diagonal (k_v s) \<and> is_diagonal (k_R s) \<and> is_diagonal (k_omega s))"

definition example_config :: UavGeometryControlParamsConfig where
  "example_config =
     \<lparr>kx_xy = 8, kx_z = 40, kv_xy = 3, kv_z = 15, kR_xy = 2, kR_z = 10, kOm_xy = 1, kOm_z = 2\<rparr>"

text \<open>The vehicle with movable masses after feedback from its four masses, the vehicle
  with the manipulator after feedback from both grippers (side by side, and opposite
  each other), and the variables of the loop when it starts.\<close>

definition shifted_masses :: controller where
  "shifted_masses =
     mass3_cb example_params (- (1 / 2))
       (mass2_cb example_params (- (1 / 4))
         (mass1_cb example_params (- (1 / 4))
           (mass0_cb example_params (1 / 4)
             (enableMassControl example_params example_controller))))"

definition holding_payload :: controller where
  "holding_payload =
     gripperRight_cb (1, 0, 0)
       (gripperLeft_cb (1, 0, 0)
         (enableManipulatorControl example_params example_controller))"


definition level_with_masses :: controller where
  "level_with_masses =
     imu_cb example_params (0, 0, 0, 1) (0, 0, 0) (enableMassControl example_params example_controller)"

definition identity_reference :: controller where
  "identity_reference = example_controller\<lparr>R_d := EYE3\<rparr>"


definition opposite_grippers :: controller where
  "opposite_grippers =
     gripperRight_cb (- 1, 0, 0)
       (gripperLeft_cb (1, 0, 0)
         (enableManipulatorControl example_params example_controller))"

definition first_tick :: loop_vars where
  "first_tick = \<lparr>t_old = 0, b1_old = (1, 0, 0), desiredCounter = 0\<rparr>"

section \<open>Properties\<close>

subsection \<open>Auxiliary facts\<close>

lemma mat3_cases:
  obtains a b c d e f g h i where "(M::mat3) = ((a, b, c), (d, e, f), (g, h, i))"
  by (metis prod_cases3)

lemma mat4_cases:
  obtains a0 a1 a2 a3 b0 b1 b2 b3 c0 c1 c2 c3 d0 d1 d2 d3 where
    "(T::mat4) = ((a0, a1, a2, a3), (b0, b1, b2, b3), (c0, c1, c2, c3), (d0, d1, d2, d3))"
  by (metis prod_cases4)

lemma saturation_bounds:
  "lo \<le> hi \<Longrightarrow> lo \<le> saturation x lo hi \<and> saturation x lo hi \<le> hi"
  by (simp add: saturation_def)

lemma saturation_nonneg:
  "0 \<le> x \<Longrightarrow> 0 \<le> w \<Longrightarrow> saturation x (- w) w = min x w"
  by (simp add: saturation_def min_def)

lemma signed_saturation_bounds:
  assumes "0 \<le> w"
  shows "- w \<le> sgn a * saturation x (- w) w \<and> sgn a * saturation x (- w) w \<le> w"
proof -
  from assms have b: "- w \<le> saturation x (- w) w \<and> saturation x (- w) w \<le> w"
    by (intro saturation_bounds) simp
  consider "a < 0" | "a = 0" | "0 < a" by linarith
  then show ?thesis
  proof cases
    case 1 with b show ?thesis by simp
  next
    case 2 with assms show ?thesis by simp
  next
    case 3 with b show ?thesis by simp
  qed
qed

text \<open>The value one rotor gets from its component of \<^verbatim>\<open>transform_matrix * thrust_moment_vec\<close>.\<close>

lemma calculateRotorVelocities_components:
  "calculateRotorVelocities P u T =
     (case mv4 T u of (a, b, c, d) \<Rightarrow>
        (sgn a * saturation (sqrt (\<bar>a\<bar> / MOTOR_CONSTANT P)) (- MAX_ROTOR_VELOCITY P) (MAX_ROTOR_VELOCITY P),
         sgn b * saturation (sqrt (\<bar>b\<bar> / MOTOR_CONSTANT P)) (- MAX_ROTOR_VELOCITY P) (MAX_ROTOR_VELOCITY P),
         sgn c * saturation (sqrt (\<bar>c\<bar> / MOTOR_CONSTANT P)) (- MAX_ROTOR_VELOCITY P) (MAX_ROTOR_VELOCITY P),
         sgn d * saturation (sqrt (\<bar>d\<bar> / MOTOR_CONSTANT P)) (- MAX_ROTOR_VELOCITY P) (MAX_ROTOR_VELOCITY P)))"
  by (cases "mv4 T u") (simp add: calculateRotorVelocities_def Let_def)

lemma mv4_thrust_only:
  assumes "column0 T = (q0, q1, q2, q3)"
  shows "mv4 T (F, 0, 0, 0) = (q0 * F, q1 * F, q2 * F, q3 * F)"
proof -
  obtain a0 a1 a2 a3 b0 b1 b2 b3 c0 c1 c2 c3 d0 d1 d2 d3 where
    T: "T = ((a0, a1, a2, a3), (b0, b1, b2, b3), (c0, c1, c2, c3), (d0, d1, d2, d3))"
    by (rule mat4_cases)
  from assms show ?thesis by (simp add: T)
qed

text \<open>Under the yaw transform the roll and pitch moments are multiplied by zero columns.\<close>

lemma mv4_yaw_transform:
  "mv4 (mm4 T EYE4) (f, Mx, My, Mz) = mv4 (mm4 T EYE4) (f, 0, 0, Mz)"
proof -
  obtain a0 a1 a2 a3 b0 b1 b2 b3 c0 c1 c2 c3 d0 d1 d2 d3 where
    T: "T = ((a0, a1, a2, a3), (b0, b1, b2, b3), (c0, c1, c2, c3), (d0, d1, d2, d3))"
    by (rule mat4_cases)
  show ?thesis by (simp add: T EYE4_def)
qed

lemma calculateRotorVelocities_yaw:
  "calculateRotorVelocities P (f, Mx, My, Mz) (THRUST_TRANSFORM_YAW P) =
   calculateRotorVelocities P (f, 0, 0, Mz) (THRUST_TRANSFORM_YAW P)"
  unfolding calculateRotorVelocities_components THRUST_TRANSFORM_YAW_def
  by (subst mv4_yaw_transform) (rule refl)

subsection \<open>Invalid control modes\<close>

text \<open>
  C1. For every control mode other than \<open>POSITION_CONTROL\<close> and \<open>ATTITUDE_CONTROL\<close>
  (the declared \<open>VELOCITY_CONTROL\<close> and undeclared values such as 99 among them),
  trajectory tracking throws the runtime error "Invalid control mode given.", and an
  iteration of the control loop that gets past its time gate ends with that exception
  before anything is published to the rotors: the only message of the iteration is the
  error log.
\<close>

theorem invalid_mode_is_fatal:
  assumes "current_control_mode s \<noteq> POSITION_CONTROL"
    and "current_control_mode s \<noteq> ATTITUDE_CONTROL"
  shows "trajectoryTracking P pos_desired s =
           Inl (runtime_error ''Invalid control mode given.'',
                publish (RosError ''Invalid control mode given.'') s)
         \<and> (controller_rate s \<noteq> 0
              \<and> \<not> current_time - t_old L < 1.0 / real_of_int (controller_rate s) \<longrightarrow>
            (\<exists>s'. runControllerLoop_iteration P current_time time_now (L, s) =
                     Inl (runtime_error ''Invalid control mode given.'', s')
                 \<and> published s' = published s @ [RosError ''Invalid control mode given.'']
                 \<and> rotor_commands s' = rotor_commands s))"
proof -
  have t: "trajectoryTracking P x s' =
             Inl (runtime_error ''Invalid control mode given.'',
                  publish (RosError ''Invalid control mode given.'') s')"
    if "current_control_mode s' = current_control_mode s" for x s'
    using assms that by (simp add: trajectoryTracking_def)
  have d: "calculateDesiredAngularVelAndAcc t_d s' = s'"
    if "current_control_mode s' = current_control_mode s" for t_d s'
    using assms(1) that by (simp add: calculateDesiredAngularVelAndAcc_def)
  have c: "current_control_mode (calculateCenterOfMass P s') = current_control_mode s'
           \<and> published (calculateCenterOfMass P s') = published s'" for s'
    by (simp add: calculateCenterOfMass_def Let_def)
  show ?thesis
    unfolding runControllerLoop_iteration_def
    by (simp add: t d c Let_def publish_def rotor_commands_def)
qed

text \<open>The mode 99 arriving through the callback, and an iteration in the velocity mode.\<close>

theorem invalid_mode_is_fatal_witness:
  "current_control_mode (ctl_mode_cb 99 example_controller) = 99
   \<and> current_control_mode (ctl_mode_cb 99 example_controller) \<noteq> POSITION_CONTROL
   \<and> current_control_mode (ctl_mode_cb 99 example_controller) \<noteq> ATTITUDE_CONTROL
   \<and> trajectoryTracking example_params (0, 0, 1) (ctl_mode_cb 99 example_controller) =
        Inl (runtime_error ''Invalid control mode given.'',
             publish (RosError ''Invalid control mode given.'') (ctl_mode_cb 99 example_controller))
   \<and> current_control_mode (ctl_mode_cb 3 example_controller) = VELOCITY_CONTROL
   \<and> controller_rate (ctl_mode_cb 3 example_controller) \<noteq> 0
   \<and> \<not> 1 / 5 - t_old first_tick < 1.0 / real_of_int (controller_rate (ctl_mode_cb 3 example_controller))
   \<and> (\<exists>s'. runControllerLoop_iteration example_params (1 / 5) (1 / 5)
               (first_tick, ctl_mode_cb 3 example_controller) =
                 Inl (runtime_error ''Invalid control mode given.'', s')
            \<and> published s' = [RosError ''Invalid control mode given.'']
            \<and> rotor_commands s' = [])"
  using invalid_mode_is_fatal [of "ctl_mode_cb 99 example_controller" example_params "(0, 0, 1)"
          "1 / 5" first_tick "1 / 5"]
        invalid_mode_is_fatal [of "ctl_mode_cb 3 example_controller" example_params "(0, 0, 1)"
          "1 / 5" first_tick "1 / 5"]
  by (simp add: ctl_mode_cb_def POSITION_CONTROL_def ATTITUDE_CONTROL_def VELOCITY_CONTROL_def
        example_controller_def UavGeometryControl_def setInitialValues_def zero_memory_def
        first_tick_def rotor_commands_def)

subsection \<open>Adjusted inertia\<close>

text \<open>
  C2 (as the code has it). With the feedback at the neutral position the terms of the
  adjusted inertia that depend on the position vanish, and what is left is the body
  inertia plus the own inertia of the moving parts: with the movable masses at offset 0
  the diagonal gains the entries xx and yy of the inertia of a mass and four times its
  entry zz; with both grippers at the origin it gains twice the diagonal of the inertia
  of the payload. Without either variant the adjusted inertia is the body inertia.
\<close>

theorem neutral_inertia:
  "(enable_mass_control s \<and> mass0_mv s = 0 \<and> mass1_mv s = 0 \<and> mass2_mv s = 0 \<and> mass3_mv s = 0
      \<longrightarrow> calculateAdjustedInertia P s =
            madd (inertia s)
              (diag3 (m3 (mass_inertia s) 0 0) (m3 (mass_inertia s) 1 1) (4 * m3 (mass_inertia s) 2 2)))
   \<and> (\<not> enable_mass_control s \<and> enable_manipulator_control s
        \<and> gripperLeft_mv s = (0, 0, 0) \<and> gripperRight_mv s = (0, 0, 0)
      \<longrightarrow> calculateAdjustedInertia P s =
            madd (inertia s)
              (diag3 (2 * m3 (payload_inertia s) 0 0) (2 * m3 (payload_inertia s) 1 1)
                     (2 * m3 (payload_inertia s) 2 2)))
   \<and> (\<not> enable_mass_control s \<and> \<not> enable_manipulator_control s
      \<longrightarrow> calculateAdjustedInertia P s = inertia s)"
proof -
  obtain a b c d e f g h i where J: "inertia s = ((a, b, c), (d, e, f), (g, h, i))"
    by (rule mat3_cases)
  show ?thesis
    by (simp add: calculateAdjustedInertia_def Let_def J m3_def diag3_def zero33_def zero3_def)
qed

theorem neutral_inertia_witness:
  "enable_mass_control (enableMassControl example_params example_controller)
   \<and> mass0_mv (enableMassControl example_params example_controller) = 0
   \<and> mass1_mv (enableMassControl example_params example_controller) = 0
   \<and> mass2_mv (enableMassControl example_params example_controller) = 0
   \<and> mass3_mv (enableMassControl example_params example_controller) = 0
   \<and> calculateAdjustedInertia example_params (enableMassControl example_params example_controller)
       = madd ((1 / 10, 0, 0), (0, 1 / 10, 0), (0, 0, 1 / 5)) (diag3 (1 / 100) (1 / 100) (4 * (1 / 100)))
   \<and> \<not> enable_mass_control (enableManipulatorControl example_params example_controller)
   \<and> enable_manipulator_control (enableManipulatorControl example_params example_controller)
   \<and> gripperLeft_mv (enableManipulatorControl example_params example_controller) = (0, 0, 0)
   \<and> gripperRight_mv (enableManipulatorControl example_params example_controller) = (0, 0, 0)
   \<and> calculateAdjustedInertia example_params (enableManipulatorControl example_params example_controller)
       = madd ((1 / 10, 0, 0), (0, 1 / 10, 0), (0, 0, 1 / 5)) (diag3 (2 * (1 / 50)) (2 * (1 / 50)) (2 * (1 / 50)))
   \<and> \<not> enable_mass_control example_controller \<and> \<not> enable_manipulator_control example_controller
   \<and> calculateAdjustedInertia example_params example_controller = inertia example_controller"
  using neutral_inertia [of "enableMassControl example_params example_controller" example_params]
        neutral_inertia [of "enableManipulatorControl example_params example_controller" example_params]
        neutral_inertia [of example_controller example_params]
  by (simp add: enableMassControl_def enableManipulatorControl_def example_controller_def
        UavGeometryControl_def setInitialValues_def zero_memory_def example_params_def
        m3_def zero3_def)

text \<open>
  The adjusted inertia at the neutral position is not the body inertia when a mass has
  an inertia of its own: with all four offsets 0 the entry xx is 11/100 where the body
  has 1/10.
\<close>

theorem neutral_inertia_counterexample:
  "enable_mass_control (enableMassControl example_params example_controller)
   \<and> mass0_mv (enableMassControl example_params example_controller) = 0
   \<and> mass1_mv (enableMassControl example_params example_controller) = 0
   \<and> mass2_mv (enableMassControl example_params example_controller) = 0
   \<and> mass3_mv (enableMassControl example_params example_controller) = 0
   \<and> inertia (enableMassControl example_params example_controller)
       = ((1 / 10, 0, 0), (0, 1 / 10, 0), (0, 0, 1 / 5))
   \<and> calculateAdjustedInertia example_params (enableMassControl example_params example_controller)
       = ((11 / 100, 0, 0), (0, 11 / 100, 0), (0, 0, 6 / 25))
   \<and> calculateAdjustedInertia example_params (enableMassControl example_params example_controller)
       \<noteq> inertia (enableMassControl example_params example_controller)"
  by (simp add: enableMassControl_def example_controller_def UavGeometryControl_def
        setInitialValues_def zero_memory_def example_params_def calculateAdjustedInertia_def
        m3_def Let_def)

subsection \<open>Centre of mass\<close>

text \<open>
  C3 (as the code has it). With the manipulator, the centre of mass is the sum of the two
  gripper positions weighted by the payload mass and divided by the total mass of the
  vehicle, \<open>PAYLOAD_MASS \<cdot> (gripperLeft + gripperRight) / uav_mass\<close>, for every pair of
  gripper positions. That is the midpoint of the grippers scaled by
  \<open>2 \<cdot> PAYLOAD_MASS / uav_mass\<close>; it is the midpoint itself exactly when the total mass is
  twice the payload mass or the two positions add up to zero.
\<close>

theorem manipulator_center_of_mass:
  assumes "enable_manipulator_control s" and "\<not> enable_mass_control s"
  shows "ro_cm (calculateCenterOfMass P s) =
           vdiv (smul (PAYLOAD_MASS P) (vadd (gripperLeft_mv s) (gripperRight_mv s))) (uav_mass s)
         \<and> ro_cm (calculateCenterOfMass P s) =
             smul (2 * PAYLOAD_MASS P / uav_mass s)
               (vdiv (vadd (gripperLeft_mv s) (gripperRight_mv s)) 2)
         \<and> (uav_mass s \<noteq> 0 \<longrightarrow>
              (ro_cm (calculateCenterOfMass P s) =
                 vdiv (vadd (gripperLeft_mv s) (gripperRight_mv s)) 2
               \<longleftrightarrow> uav_mass s = 2 * PAYLOAD_MASS P
                    \<or> vadd (gripperLeft_mv s) (gripperRight_mv s) = zero3))"
proof -
  obtain l0 l1 l2 where l: "gripperLeft_mv s = (l0, l1, l2)" by (cases "gripperLeft_mv s")
  obtain r0 r1 r2 where r: "gripperRight_mv s = (r0, r1, r2)" by (cases "gripperRight_mv s")
  have c: "ro_cm (calculateCenterOfMass P s) =
             (PAYLOAD_MASS P * (l0 + r0) / uav_mass s,
              PAYLOAD_MASS P * (l1 + r1) / uav_mass s,
              PAYLOAD_MASS P * (l2 + r2) / uav_mass s)"
    using assms by (simp add: calculateCenterOfMass_def l r algebra_simps add_divide_distrib)
  have e: "(m * x / M = x / 2) = (M = 2 * m \<or> x = 0)" if "M \<noteq> 0" for m x M :: real
    using that by (auto simp: field_simps)
  have i: "ro_cm (calculateCenterOfMass P s) = vdiv (vadd (gripperLeft_mv s) (gripperRight_mv s)) 2
        \<longleftrightarrow> uav_mass s = 2 * PAYLOAD_MASS P \<or> vadd (gripperLeft_mv s) (gripperRight_mv s) = zero3"
    if M: "uav_mass s \<noteq> 0"
  proof -
    have "ro_cm (calculateCenterOfMass P s) = vdiv (vadd (gripperLeft_mv s) (gripperRight_mv s)) 2
          \<longleftrightarrow> PAYLOAD_MASS P * (l0 + r0) / uav_mass s = (l0 + r0) / 2
              \<and> PAYLOAD_MASS P * (l1 + r1) / uav_mass s = (l1 + r1) / 2
              \<and> PAYLOAD_MASS P * (l2 + r2) / uav_mass s = (l2 + r2) / 2"
      unfolding c by (simp only: l r vadd.simps vdiv.simps prod.inject)
    also have "\<dots> \<longleftrightarrow> (uav_mass s = 2 * PAYLOAD_MASS P \<or> l0 + r0 = 0)
                      \<and> (uav_mass s = 2 * PAYLOAD_MASS P \<or> l1 + r1 = 0)
                      \<and> (uav_mass s = 2 * PAYLOAD_MASS P \<or> l2 + r2 = 0)"
      by (simp only: e [OF M])
    also have "\<dots> \<longleftrightarrow> uav_mass s = 2 * PAYLOAD_MASS P
                      \<or> vadd (gripperLeft_mv s) (gripperRight_mv s) = zero3"
      unfolding l r vadd.simps zero3_def prod.inject by blast
    finally show ?thesis .
  qed
  have a: "ro_cm (calculateCenterOfMass P s) =
             vdiv (smul (PAYLOAD_MASS P) (vadd (gripperLeft_mv s) (gripperRight_mv s))) (uav_mass s)"
    unfolding c by (simp add: l r)
  have b: "ro_cm (calculateCenterOfMass P s) =
             smul (2 * PAYLOAD_MASS P / uav_mass s)
               (vdiv (vadd (gripperLeft_mv s) (gripperRight_mv s)) 2)"
    unfolding c by (simp add: l r)
  from a b i show ?thesis by blast
qed

theorem manipulator_center_of_mass_witness:
  "enable_manipulator_control holding_payload \<and> \<not> enable_mass_control holding_payload
   \<and> PAYLOAD_MASS example_params = 1 / 2 \<and> uav_mass holding_payload = 4
   \<and> uav_mass holding_payload \<noteq> 0
   \<and> ro_cm (calculateCenterOfMass example_params holding_payload)
       = vdiv (smul (1 / 2) (vadd (1, 0, 0) (1, 0, 0))) 4
   \<and> ro_cm (calculateCenterOfMass example_params holding_payload) = smul (1 / 4) (1, 0, 0)
   \<and> ro_cm (calculateCenterOfMass example_params holding_payload) \<noteq> (1, 0, 0)
   \<and> enable_manipulator_control opposite_grippers \<and> \<not> enable_mass_control opposite_grippers
   \<and> uav_mass opposite_grippers \<noteq> 0
   \<and> vadd (gripperLeft_mv opposite_grippers) (gripperRight_mv opposite_grippers) = zero3
   \<and> ro_cm (calculateCenterOfMass example_params opposite_grippers)
       = vdiv (vadd (gripperLeft_mv opposite_grippers) (gripperRight_mv opposite_grippers)) 2"
proof -
  have e: "enable_manipulator_control holding_payload" "\<not> enable_mass_control holding_payload"
    by (simp_all add: holding_payload_def gripperRight_cb_def gripperLeft_cb_def
          enableManipulatorControl_def)
  have e': "enable_manipulator_control opposite_grippers" "\<not> enable_mass_control opposite_grippers"
    by (simp_all add: opposite_grippers_def gripperRight_cb_def gripperLeft_cb_def
          enableManipulatorControl_def)
  show ?thesis
    using manipulator_center_of_mass [OF e, of example_params]
          manipulator_center_of_mass [OF e', of example_params] e e'
    by (simp add: holding_payload_def opposite_grippers_def gripperRight_cb_def gripperLeft_cb_def
          enableManipulatorControl_def example_controller_def UavGeometryControl_def
          setInitialValues_def zero_memory_def example_params_def zero3_def)
qed

text \<open>
  Both grippers at \<open>(1, 0, 0)\<close> on a vehicle of total mass 4 with payloads of mass 1/2:
  the centre of mass is \<open>(1/4, 0, 0)\<close>, the midpoint of the grippers is \<open>(1, 0, 0)\<close>.
\<close>

theorem manipulator_center_of_mass_counterexample:
  "enable_manipulator_control holding_payload \<and> \<not> enable_mass_control holding_payload
   \<and> gripperLeft_mv holding_payload = (1, 0, 0) \<and> gripperRight_mv holding_payload = (1, 0, 0)
   \<and> ro_cm (calculateCenterOfMass example_params holding_payload) = (1 / 4, 0, 0)
   \<and> ro_cm (calculateCenterOfMass example_params holding_payload)
       \<noteq> vdiv (vadd (gripperLeft_mv holding_payload) (gripperRight_mv holding_payload)) 2"
  by (simp add: holding_payload_def gripperRight_cb_def gripperLeft_cb_def
        enableManipulatorControl_def example_controller_def UavGeometryControl_def
        setInitialValues_def zero_memory_def example_params_def calculateCenterOfMass_def
        zero3_def)

text \<open>
  C7. With the movable masses, the centre of mass is
  \<open>((MM_MASS \<cdot> m0 - MM_MASS \<cdot> m2) / uav_mass, (MM_MASS \<cdot> m1 - MM_MASS \<cdot> m3) / uav_mass, 0)\<close>
  for every four offsets: the masses 0 and 2 act on x with opposite signs, the masses 1
  and 3 on y, the z component is 0, and four offsets 0 give the origin.
\<close>

theorem movable_mass_center_of_mass:
  assumes "enable_mass_control s"
  shows "ro_cm (calculateCenterOfMass P s) =
           ((MM_MASS P * mass0_mv s - MM_MASS P * mass2_mv s) / uav_mass s,
            (MM_MASS P * mass1_mv s - MM_MASS P * mass3_mv s) / uav_mass s,
            0)
         \<and> v3 (ro_cm (calculateCenterOfMass P s)) 2 = 0
         \<and> (mass0_mv s = 0 \<and> mass1_mv s = 0 \<and> mass2_mv s = 0 \<and> mass3_mv s = 0
              \<and> uav_mass s \<noteq> 0
            \<longrightarrow> ro_cm (calculateCenterOfMass P s) = (0, 0, 0))"
proof -
  obtain a b c where r: "ro_cm s = (a, b, c)" by (cases "ro_cm s")
  show ?thesis using assms by (simp add: calculateCenterOfMass_def Let_def r)
qed

theorem movable_mass_center_of_mass_witness:
  "enable_mass_control shifted_masses
   \<and> (mass0_mv shifted_masses, mass1_mv shifted_masses, mass2_mv shifted_masses, mass3_mv shifted_masses)
       = (1 / 2, 0, 0, - (1 / 4))
   \<and> uav_mass shifted_masses = 3
   \<and> ro_cm (calculateCenterOfMass example_params shifted_masses) = (1 / 24, 1 / 48, 0)
   \<and> uav_mass (enableMassControl example_params example_controller) \<noteq> 0
   \<and> ro_cm (calculateCenterOfMass example_params (enableMassControl example_params example_controller))
       = (0, 0, 0)"
proof -
  have e: "enable_mass_control shifted_masses"
    by (simp add: shifted_masses_def mass0_cb_def mass1_cb_def mass2_cb_def mass3_cb_def
          enableMassControl_def)
  have e': "enable_mass_control (enableMassControl example_params example_controller)"
    by (simp add: enableMassControl_def)
  show ?thesis
    using movable_mass_center_of_mass [OF e, of example_params]
          movable_mass_center_of_mass [OF e', of example_params] e
    by (simp add: shifted_masses_def mass0_cb_def mass1_cb_def mass2_cb_def mass3_cb_def
          enableMassControl_def example_controller_def UavGeometryControl_def
          setInitialValues_def zero_memory_def example_params_def)
qed

subsection \<open>The guard on the angular-velocity error\<close>

text \<open>A NaN operand on the right gives a NaN, as one on the left does by definition.\<close>

lemma d_add_NaN [simp]: "d_add a NaN = NaN"
  by (cases a) simp_all

lemma d_mul_NaN [simp]: "d_mul a NaN = NaN"
  by (cases a) simp_all

lemma d_div_NaN [simp]: "d_div a NaN = NaN"
  by (cases a) simp_all

lemma d_sub_NaN [simp]: "d_sub a NaN = NaN" "d_sub NaN a = NaN"
  by (simp_all add: d_sub_def)

lemma d_sub_Finite [simp]: "d_sub (Finite x) (Finite y) = Finite (x - y)"
  by (simp add: d_sub_def)

lemma d_ne_self: "d_ne a a = is_nan a"
  by (cases a) (simp_all add: d_ne_def)


lemma angular_velocity_guard_Inr:
  "angular_velocity_guard e = Inr e' \<longleftrightarrow> \<not> is_nan (dv3 e 0) \<and> e' = e"
  by (auto simp: angular_velocity_guard_def d_ne_self)


lemma sum_squares3_zero:
  "a * a + b * b + c * c = 0 \<longleftrightarrow> a = 0 \<and> b = 0 \<and> (c::real) = 0"
  by (metis add_nonneg_eq_0_iff add_nonneg_nonneg mult_eq_0_iff zero_le_square)

lemma norm3_zero: "norm3 v = 0 \<longleftrightarrow> v = zero3"
  by (cases v) (simp add: norm3_def zero3_def sum_squares3_zero)

text \<open>The desired rotation of the position mode when one of its two norms is zero.\<close>

lemma desired_rotation_parallel:
  assumes "cross v b1 = zero3"
  shows "desired_rotation POSITION_CONTROL (to_double3 b1) (to_double3 v) R_euler =
           Some (Some (NaN, NaN, NaN), d_from_columns (NaN, NaN, NaN) (NaN, NaN, NaN) (to_double3 v))"
proof -
  obtain x y z where v: "v = (x, y, z)" by (cases v)
  obtain p q r where b: "b1 = (p, q, r)" by (cases b1)
  from assms show ?thesis
    by (simp add: desired_rotation_def v b zero3_def d_norm_def Let_def)
qed



lemma angular_velocity_error_finite:
  "angular_velocity_error (to_double33 R) (to_double33 Rd) (to_double3 w) (to_double3 wd) =
     to_double3 (vsub w (mv3 (mm3 (adjoint R) Rd) wd))"
proof -
  obtain a b c d e f g h i where R: "R = ((a, b, c), (d, e, f), (g, h, i))" by (metis prod_cases3)
  obtain a' b' c' d' e' f' g' h' i' where Rd: "Rd = ((a', b', c'), (d', e', f'), (g', h', i'))"
    by (metis prod_cases3)
  obtain w0 w1 w2 where w: "w = (w0, w1, w2)" by (cases w)
  obtain u0 u1 u2 where wd: "wd = (u0, u1, u2)" by (cases wd)
  show ?thesis by (simp add: angular_velocity_error_def R Rd w wd)
qed

lemma to_double3_finite [simp]: "finite3 (to_double3 v)" "to_real3 (to_double3 v) = v"
  by (cases v; simp)+

lemma to_double33_finite [simp]: "finite33 (to_double33 M)" "to_real33 (to_double33 M) = M"
  by (cases M; simp)+

lemma not_nan_to_double3 [simp]: "\<not> is_nan (dv3 (to_double3 v) i)"
  by (cases v) simp

lemma triple_cross:
  "cross v (cross v (cross v b)) = smul (- dot v v) (cross v b)"
proof -
  obtain x y z where v: "v = (x, y, z)" by (cases v)
  obtain p q r where b: "b = (p, q, r)" by (cases b)
  show ?thesis by (simp add: v b algebra_simps)
qed

lemma cross_zero_left: "cross zero3 b = zero3"
  by (cases b) (simp add: zero3_def)

lemma cross_vdiv_vneg: "cross v (vdiv (vneg c) k) = vdiv (vneg (cross v c)) k"
proof -
  obtain x y z where v: "v = (x, y, z)" by (cases v)
  obtain p q r where c: "c = (p, q, r)" by (cases c)
  show ?thesis by (simp add: v c diff_divide_distrib)
qed

lemma second_norm_nonzero:
  assumes "cross v b \<noteq> zero3"
  shows "cross v (vdiv (vneg (cross v (cross v b))) (norm3 (cross v b))) \<noteq> zero3"
proof
  let ?n = "cross v b" and ?k = "norm3 (cross v b)"
  assume z: "cross v (vdiv (vneg (cross v ?n)) ?k) = zero3"
  have k: "?k \<noteq> 0" using assms by (simp add: norm3_zero)
  have v: "v \<noteq> zero3" using assms cross_zero_left [of b] by auto
  then have d: "dot v v \<noteq> 0"
    by (cases v) (simp add: zero3_def sum_squares3_zero)
  obtain n0 n1 n2 where n: "?n = (n0, n1, n2)" by (cases ?n)
  from z have "vdiv (vneg (smul (- dot v v) ?n)) ?k = zero3"
    by (simp add: cross_vdiv_vneg triple_cross)
  with k d have "?n = zero3"
    by (simp add: n zero3_def)
  with assms show False by simp
qed

lemma desired_rotation_position_finite:
  assumes "cross v b \<noteq> zero3"
  shows "desired_rotation POSITION_CONTROL (to_double3 b) (to_double3 v) R_euler =
           (let b1_c = vdiv (vneg (cross v (cross v b))) (norm3 (cross v b));
                b2_c = cross v b1_c;
                b2_c = vdiv b2_c (norm3 b2_c)
            in Some (Some (to_double3 b1_c), to_double33 (from_columns b1_c b2_c v)))"
proof -
  obtain x y z where v: "v = (x, y, z)" by (cases v)
  obtain p q r where b: "b = (p, q, r)" by (cases b)
  have k1: "norm3 (cross v b) \<noteq> 0" using assms by (simp add: norm3_zero)
  have k2: "norm3 (cross v (vdiv (vneg (cross v (cross v b))) (norm3 (cross v b)))) \<noteq> 0"
    using second_norm_nonzero [OF assms] by (simp add: norm3_zero)
  have nonneg: "\<not> a * a + b' * b' + c * c < 0" for a b' c :: real
    by (simp add: not_less add_nonneg_nonneg)
  from k1 k2 show ?thesis
    by (simp add: desired_rotation_def v b d_norm_def norm3_def Let_def from_columns_def
          d_from_columns_def nonneg)
qed


lemma desired_rotation_position_finite_ex:
  assumes "cross v b \<noteq> zero3"
  shows "\<exists>b1_c M. desired_rotation POSITION_CONTROL (to_double3 b) (to_double3 v) R_euler =
           Some (Some (to_double3 b1_c), to_double33 M)"
  unfolding desired_rotation_position_finite [OF assms] Let_def by blast


lemma angular_velocity_error_NaN_columns:
  "is_nan (dv3 (angular_velocity_error R (d_from_columns (NaN, NaN, NaN) (NaN, NaN, NaN) c) m w) 0)"
proof -
  obtain r0 r1 r2 where R: "R = (r0, r1, r2)" by (cases R)
  obtain a0 a1 a2 where r0: "r0 = (a0, a1, a2)" by (cases r0)
  obtain b0 b1 b2 where r1: "r1 = (b0, b1, b2)" by (cases r1)
  obtain c0 c1 c2 where r2: "r2 = (c0, c1, c2)" by (cases r2)
  obtain w0 w1 w2 where w: "w = (w0, w1, w2)" by (cases w)
  obtain m0 m1 m2 where m: "m = (m0, m1, m2)" by (cases m)
  show ?thesis
    by (cases c) (simp add: angular_velocity_error_def d_from_columns_def R r0 r1 r2 w m)
qed

lemma desired_rotation_no_direction:
  "desired_rotation POSITION_CONTROL (to_double3 b) (NaN, NaN, NaN) R_euler =
     Some (Some (NaN, NaN, NaN), d_from_columns (NaN, NaN, NaN) (NaN, NaN, NaN) (NaN, NaN, NaN))"
  by (cases b) (simp add: desired_rotation_def d_norm_def Let_def)

text \<open>Behind the guard every value is finite: the way back to the reals loses nothing.\<close>

lemma attitudeTracking_values_finite:
  fixes s :: controller
  assumes "desired_rotation (current_control_mode s) (to_double3 b1_desired)
             (thrust_direction b3_desired) (to_double33 R_euler) = Some (b1_c, R_c)"
    and "angular_velocity_guard (angular_velocity_error (to_double33 (R_mv s)) R_c
           (to_double3 (omega_mv s)) (to_double3 (omega_d s))) = Inr e_omega"
  shows "finite33 R_c \<and> finite3 e_omega \<and> (\<forall>b. b1_c = Some b \<longrightarrow> finite3 b)"
proof (cases "current_control_mode s = POSITION_CONTROL")
  case False
  with assms(1) have "R_c = to_double33 R_euler" "b1_c = None"
    by (simp_all add: desired_rotation_def split: if_splits)
  with assms(2) show ?thesis
    by (simp add: angular_velocity_guard_Inr angular_velocity_error_finite)
next
  case True
  have n: "\<not> is_nan (dv3 (angular_velocity_error (to_double33 (R_mv s)) R_c
                       (to_double3 (omega_mv s)) (to_double3 (omega_d s))) 0)"
    and e: "e_omega = angular_velocity_error (to_double33 (R_mv s)) R_c
                       (to_double3 (omega_mv s)) (to_double3 (omega_d s))"
    using assms(2) by (simp_all add: angular_velocity_guard_Inr)
  show ?thesis
  proof (cases b3_desired)
    case None
    with assms(1) True n show ?thesis
      by (auto simp: desired_rotation_no_direction angular_velocity_error_NaN_columns)
  next
    case (Some v)
    show ?thesis
    proof (cases "cross v b1_desired = zero3")
      case c: True
      from assms(1) n show ?thesis
        by (auto simp: Some True desired_rotation_parallel [OF c] angular_velocity_error_NaN_columns)
    next
      case c: False
      from desired_rotation_position_finite_ex [OF c, of "to_double33 R_euler"] obtain b1' M where
        "desired_rotation POSITION_CONTROL (to_double3 b1_desired) (to_double3 v) (to_double33 R_euler) =
           Some (Some (to_double3 b1'), to_double33 M)" by blast
      with assms(1) have "R_c = to_double33 M" "b1_c = Some (to_double3 b1')"
        by (simp_all add: Some True)
      with e show ?thesis by (simp add: angular_velocity_error_finite)
    qed
  qed
qed














subsection \<open>Rotor allocation\<close>

text \<open>
  C5 (as the code has it). For a thrust \<open>F > 0\<close> and no moment, under a transform whose
  first column gives each rotor a quarter of the thrust, the four rotor speeds are equal
  and positive, and each is the smaller of \<open>sqrt (F / (4 \<cdot> MOTOR_CONSTANT))\<close> and
  \<open>MAX_ROTOR_VELOCITY\<close>; they are \<open>sqrt (F / (4 \<cdot> MOTOR_CONSTANT))\<close> as long as that
  value does not exceed the maximum rotor velocity.
\<close>

theorem hover_allocation:
  assumes "0 < F" and "0 < MOTOR_CONSTANT P" and "0 < MAX_ROTOR_VELOCITY P"
    and "column0 T = (1 / 4, 1 / 4, 1 / 4, 1 / 4)"
  shows "calculateRotorVelocities P (F, 0, 0, 0) T =
           (let w = min (sqrt (F / (4 * MOTOR_CONSTANT P))) (MAX_ROTOR_VELOCITY P)
            in (w, w, w, w))
         \<and> 0 < min (sqrt (F / (4 * MOTOR_CONSTANT P))) (MAX_ROTOR_VELOCITY P)
         \<and> (sqrt (F / (4 * MOTOR_CONSTANT P)) \<le> MAX_ROTOR_VELOCITY P \<longrightarrow>
              calculateRotorVelocities P (F, 0, 0, 0) T =
                (sqrt (F / (4 * MOTOR_CONSTANT P)), sqrt (F / (4 * MOTOR_CONSTANT P)),
                 sqrt (F / (4 * MOTOR_CONSTANT P)), sqrt (F / (4 * MOTOR_CONSTANT P))))"
proof -
  let ?k = "MOTOR_CONSTANT P" and ?w = "MAX_ROTOR_VELOCITY P"
  have pos: "0 < F / (4 * ?k)" using assms(1,2) by simp
  have mag: "\<bar>1 / 4 * F\<bar> / ?k = F / (4 * ?k)" using assms(1) by simp
  have sg: "sgn (1 / 4 * F) = 1" using assms(1) by simp
  have sat: "saturation (sqrt (F / (4 * ?k))) (- ?w) ?w = min (sqrt (F / (4 * ?k))) ?w"
    using pos assms(3) by (intro saturation_nonneg) simp_all
  have a: "calculateRotorVelocities P (F, 0, 0, 0) T =
           (let w = min (sqrt (F / (4 * ?k))) ?w in (w, w, w, w))"
    unfolding calculateRotorVelocities_components mv4_thrust_only [OF assms(4)]
    by (simp only: prod.case mag sg sat Let_def mult_1)
  have b: "0 < min (sqrt (F / (4 * ?k))) ?w"
    using pos assms(3) by simp
  have c: "sqrt (F / (4 * ?k)) \<le> ?w \<longrightarrow>
           calculateRotorVelocities P (F, 0, 0, 0) T =
             (sqrt (F / (4 * ?k)), sqrt (F / (4 * ?k)), sqrt (F / (4 * ?k)), sqrt (F / (4 * ?k)))"
    unfolding a by (simp add: min_def Let_def)
  from a b c show ?thesis by blast
qed

theorem hover_allocation_witness:
  "(0::real) < 4 \<and> 0 < MOTOR_CONSTANT example_params \<and> 0 < MAX_ROTOR_VELOCITY example_params
   \<and> column0 (THRUST_TRANSFORM_FULL example_params) = (1 / 4, 1 / 4, 1 / 4, 1 / 4)
   \<and> sqrt (4 / (4 * MOTOR_CONSTANT example_params)) \<le> MAX_ROTOR_VELOCITY example_params
   \<and> calculateRotorVelocities example_params (4, 0, 0, 0) (THRUST_TRANSFORM_FULL example_params)
       = (1, 1, 1, 1)"
  using hover_allocation [of 4 example_params "THRUST_TRANSFORM_FULL example_params"]
  by (simp add: example_params_def)

text \<open>
  A thrust of 16 with motor constant 1 and maximum rotor velocity 1: every rotor would
  need the speed \<open>sqrt (16 / 4) = 2\<close> and is commanded 1.
\<close>

theorem hover_counterexample:
  "(0::real) < 16
   \<and> column0 (THRUST_TRANSFORM_FULL example_params) = (1 / 4, 1 / 4, 1 / 4, 1 / 4)
   \<and> mv4 (THRUST_TRANSFORM_FULL example_params) (16, 0, 0, 0) = (16 / 4, 16 / 4, 16 / 4, 16 / 4)
   \<and> sqrt (16 / (4 * MOTOR_CONSTANT example_params)) = 2
   \<and> calculateRotorVelocities example_params (16, 0, 0, 0) (THRUST_TRANSFORM_FULL example_params)
       = (1, 1, 1, 1)
   \<and> v4 (calculateRotorVelocities example_params (16, 0, 0, 0) (THRUST_TRANSFORM_FULL example_params)) 0
       \<noteq> sqrt (16 / (4 * MOTOR_CONSTANT example_params))"
  by (simp add: example_params_def calculateRotorVelocities_def saturation_def)

text \<open>
  C6. Whatever the thrust-moment vector and the transform matrix, each of the four rotor
  speeds that the allocator returns lies between \<open>- MAX_ROTOR_VELOCITY\<close> and
  \<open>MAX_ROTOR_VELOCITY\<close>: multiplying the saturated magnitude by the sign does not leave
  the interval. The two constants are those of a real vehicle: the maximum velocity is
  not negative and the motor constant is positive.
\<close>

theorem rotor_velocities_bounded:
  assumes "0 \<le> MAX_ROTOR_VELOCITY P" and "0 < MOTOR_CONSTANT P"
  shows "\<forall>i \<in> {0, 1, 2, 3}.
           - MAX_ROTOR_VELOCITY P \<le> v4 (calculateRotorVelocities P thrust_moment_vec transform_matrix) i
         \<and> v4 (calculateRotorVelocities P thrust_moment_vec transform_matrix) i \<le> MAX_ROTOR_VELOCITY P"
proof -
  obtain a b c d where m: "mv4 transform_matrix thrust_moment_vec = (a, b, c, d)"
    by (cases "mv4 transform_matrix thrust_moment_vec")
  show ?thesis
    using signed_saturation_bounds [OF assms(1)]
    by (simp add: calculateRotorVelocities_components m)
qed

theorem rotor_velocities_bounded_witness:
  "0 \<le> MAX_ROTOR_VELOCITY example_params \<and> 0 < MOTOR_CONSTANT example_params
   \<and> calculateRotorVelocities example_params (16, 0, 0, 1) (THRUST_TRANSFORM_FULL example_params)
       = (1, 1, 1, 1)
   \<and> - MAX_ROTOR_VELOCITY example_params
        \<le> v4 (calculateRotorVelocities example_params (16, 0, 0, 1) (THRUST_TRANSFORM_FULL example_params)) 0
   \<and> v4 (calculateRotorVelocities example_params (16, 0, 0, 1) (THRUST_TRANSFORM_FULL example_params)) 3
        \<le> MAX_ROTOR_VELOCITY example_params"
  using rotor_velocities_bounded [of example_params "(16, 0, 0, 1)" "THRUST_TRANSFORM_FULL example_params"]
  by (simp add: example_params_def calculateRotorVelocities_def saturation_def)

text \<open>
  C10. Under the yaw transform (the full transform times \<open>EYE4\<close>, whose roll and pitch
  columns are zero) the rotor speeds do not depend on the roll and pitch moments: two
  thrust-moment vectors with the same thrust and the same yaw moment give the same four
  speeds, and with the movable masses or the manipulator enabled the rotor command that
  is published is the same for both.
\<close>

theorem rotors_ignore_roll_pitch:
  "calculateRotorVelocities P (f, Mx, My, Mz) (THRUST_TRANSFORM_YAW P) =
   calculateRotorVelocities P (f, Mx', My', Mz) (THRUST_TRANSFORM_YAW P)
   \<and> (enable_mass_control s \<or> enable_manipulator_control s \<longrightarrow>
        rotor_commands (publishControlInputs P f (Mx, My, Mz) s) =
        rotor_commands (publishControlInputs P f (Mx', My', Mz) s))"
proof -
  have a: "calculateRotorVelocities P (f, Mx, My, Mz) (THRUST_TRANSFORM_YAW P) =
           calculateRotorVelocities P (f, Mx', My', Mz) (THRUST_TRANSFORM_YAW P)"
    using calculateRotorVelocities_yaw [of P f Mx My Mz]
          calculateRotorVelocities_yaw [of P f Mx' My' Mz] by simp
  show ?thesis
    using a by (simp add: publishControlInputs_def rotor_commands_def publish_def Let_def)
qed

text \<open>With the full transform, used when no variant is enabled, the moments do matter.\<close>

theorem rotors_ignore_roll_pitch_witness:
  "enable_mass_control level_with_masses
   \<and> R_mv level_with_masses = EYE3
   \<and> rotor_commands (publishControlInputs example_params 4 (1, - 1, 0) level_with_masses)
        = [Actuators (1, 1, 1, 1)]
   \<and> rotor_commands (publishControlInputs example_params 4 (0, 2, 0) level_with_masses)
        = [Actuators (1, 1, 1, 1)]
   \<and> calculateRotorVelocities example_params (4, 1, - 1, 0) (THRUST_TRANSFORM_FULL example_params)
        \<noteq> (1, 1, 1, 1)"
  using rotors_ignore_roll_pitch [of example_params 4 1 "- 1" 0 0 2 level_with_masses]
  by (simp add: level_with_masses_def imu_cb_def quaternion2euler_def atan2_def
        example_params_def example_controller_def enableMassControl_def
        UavGeometryControl_def setInitialValues_def zero_memory_def
        publishControlInputs_def rotor_commands_def publish_def Let_def
        calculateRotorVelocities_def THRUST_TRANSFORM_YAW_def EYE4_def EYE3_def E3_def
        saturation_def)

subsection \<open>Desired angular velocity and acceleration\<close>

text \<open>Nothing after the estimator in an iteration touches the stored previous values.\<close>

lemma publish_R_c_old [simp]:
  "R_c_old (publish m s) = R_c_old s" "R_c_dot_old (publish m s) = R_c_dot_old s"
  by (simp_all add: publish_def)

lemma calculateCenterOfMass_R_c_old:
  "R_c_old (calculateCenterOfMass P s) = R_c_old s \<and>
   R_c_dot_old (calculateCenterOfMass P s) = R_c_dot_old s"
  by (simp add: calculateCenterOfMass_def Let_def)

lemma trajectoryTracking_R_c_old:
  "trajectoryTracking P x s = Inl (ex, s') \<or> trajectoryTracking P x s = Inr (b, f, s')
   \<Longrightarrow> R_c_old s' = R_c_old s \<and> R_c_dot_old s' = R_c_dot_old s"
  by (auto simp: trajectoryTracking_def Let_def split: option.splits if_splits prod.splits)

lemma attitudeTracking_R_c_old:
  "attitudeTracking P b1 b3 s = Inl (ex, s') \<or> attitudeTracking P b1 b3 s = Inr (M, s')
   \<Longrightarrow> R_c_old s' = R_c_old s \<and> R_c_dot_old s' = R_c_dot_old s"
  by (auto simp: attitudeTracking_def Let_def split: option.splits if_splits prod.splits sum.splits)

lemma publishControlInputs_R_c_old:
  "R_c_old (publishControlInputs P f M s) = R_c_old s \<and>
   R_c_dot_old (publishControlInputs P f M s) = R_c_dot_old s"
  by (simp add: publishControlInputs_def Let_def split: prod.splits)

lemma publishStatusMessage_R_c_old:
  "R_c_old (publishStatusMessage f M s) = R_c_old s \<and>
   R_c_dot_old (publishStatusMessage f M s) = R_c_dot_old s"
  by (simp add: publishStatusMessage_def Let_def)

lemma tracking_and_publishing_R_c_old:
  assumes r_def: "r = (case trajectoryTracking P (x_d s2) s2 of
                 Inl ex \<Rightarrow> Inl ex
               | Inr (b3_d, f_u, s) \<Rightarrow>
                   (let L = L0\<lparr>b1_old := b1_des\<rparr>
                    in case attitudeTracking P b1_des b3_d s of
                         Inl ex \<Rightarrow> Inl ex
                       | Inr (M_u, s) \<Rightarrow>
                           (let s = publishControlInputs P f_u M_u s;
                                s = publishStatusMessage f_u M_u s
                            in Inr (L, s))))"
  shows "R_c_old (controller_after r) = R_c_old s2 \<and>
         R_c_dot_old (controller_after r) = R_c_dot_old s2"
proof (cases "trajectoryTracking P (x_d s2) s2")
  case (Inl a)
  then obtain ex s3 where a: "trajectoryTracking P (x_d s2) s2 = Inl (ex, s3)"
    by (cases a) simp
  with trajectoryTracking_R_c_old [of P "x_d s2" s2 ex s3] show ?thesis
    by (simp add: r_def)
next
  case (Inr a)
  then obtain b3_d f_u s3 where a: "trajectoryTracking P (x_d s2) s2 = Inr (b3_d, f_u, s3)"
    by (cases a) simp
  have s3: "R_c_old s3 = R_c_old s2 \<and> R_c_dot_old s3 = R_c_dot_old s2"
    using trajectoryTracking_R_c_old [of P "x_d s2" s2 _ s3 b3_d f_u] a by simp
  show ?thesis
  proof (cases "attitudeTracking P b1_des b3_d s3")
    case (Inl c)
    then obtain ex s4 where c: "attitudeTracking P b1_des b3_d s3 = Inl (ex, s4)"
      by (cases c) simp
    with attitudeTracking_R_c_old [of P b1_des b3_d s3 ex s4] s3 show ?thesis
      by (simp add: r_def a)
  next
    case (Inr c)
    then obtain M_u s4 where c: "attitudeTracking P b1_des b3_d s3 = Inr (M_u, s4)"
      by (cases c) simp
    with attitudeTracking_R_c_old [of P b1_des b3_d s3 _ s4 M_u] s3 show ?thesis
      by (simp add: r_def a Let_def publishControlInputs_R_c_old publishStatusMessage_R_c_old)
  qed
qed

lemma iteration_R_c_old_value:
  "R_c_old (controller_after (runControllerLoop_iteration P current_time time_now (L, s))) =
     R_c_old (if controller_rate s = 0 \<or> current_time - t_old L < 1.0 / real_of_int (controller_rate s)
              then s
              else if desiredTimeInterval \<le> desiredCounter L + (current_time - t_old L)
              then calculateDesiredAngularVelAndAcc desiredTimeInterval (s\<lparr>calc_desired_flag := True\<rparr>)
              else s)
   \<and> R_c_dot_old (controller_after (runControllerLoop_iteration P current_time time_now (L, s))) =
     R_c_dot_old (if controller_rate s = 0 \<or> current_time - t_old L < 1.0 / real_of_int (controller_rate s)
              then s
              else if desiredTimeInterval \<le> desiredCounter L + (current_time - t_old L)
              then calculateDesiredAngularVelAndAcc desiredTimeInterval (s\<lparr>calc_desired_flag := True\<rparr>)
              else s)"
  unfolding runControllerLoop_iteration_def
  by (simp add: Let_def tracking_and_publishing_R_c_old calculateCenterOfMass_R_c_old)

text \<open>
  C8. Called in a mode other than \<open>POSITION_CONTROL\<close>, or with \<open>calc_desired_flag\<close>
  down, the estimator of the desired rates returns the controller as it got it: the
  desired angular velocity and acceleration and the stored previous rotation and its
  derivative are unchanged. With the flag up in position mode it stores the desired
  rotation and its finite difference and lowers the flag. Over an iteration of the
  control loop the stored previous values change only if the iteration got past the time
  gate in position mode with the sub-rate timer due.
\<close>

theorem desired_rate_estimator_gated:
  "(\<not> calc_desired_flag s \<or> current_control_mode s \<noteq> POSITION_CONTROL \<longrightarrow>
      calculateDesiredAngularVelAndAcc t_d s = s)
   \<and> (calc_desired_flag s \<and> current_control_mode s = POSITION_CONTROL \<longrightarrow>
        R_c_old (calculateDesiredAngularVelAndAcc t_d s) = R_d s
      \<and> R_c_dot_old (calculateDesiredAngularVelAndAcc t_d s) = mdiv (msub (R_d s) (R_c_old s)) t_d
      \<and> \<not> calc_desired_flag (calculateDesiredAngularVelAndAcc t_d s))
   \<and> (R_c_old (controller_after (runControllerLoop_iteration P current_time time_now (L, s))) \<noteq> R_c_old s
        \<or> R_c_dot_old (controller_after (runControllerLoop_iteration P current_time time_now (L, s)))
             \<noteq> R_c_dot_old s
      \<longrightarrow> current_control_mode s = POSITION_CONTROL
        \<and> desiredTimeInterval \<le> desiredCounter L + (current_time - t_old L)
        \<and> controller_rate s \<noteq> 0
        \<and> \<not> current_time - t_old L < 1.0 / real_of_int (controller_rate s))"
proof -
  have "current_control_mode s = POSITION_CONTROL
        \<and> desiredTimeInterval \<le> desiredCounter L + (current_time - t_old L)
        \<and> controller_rate s \<noteq> 0
        \<and> \<not> current_time - t_old L < 1.0 / real_of_int (controller_rate s)"
    if "R_c_old (controller_after (runControllerLoop_iteration P current_time time_now (L, s))) \<noteq> R_c_old s
        \<or> R_c_dot_old (controller_after (runControllerLoop_iteration P current_time time_now (L, s)))
             \<noteq> R_c_dot_old s"
    using that unfolding iteration_R_c_old_value [THEN conjunct1] iteration_R_c_old_value [THEN conjunct2]
    by (simp add: calculateDesiredAngularVelAndAcc_def split: if_splits)
  then show ?thesis
    by (simp add: calculateDesiredAngularVelAndAcc_def Let_def)
qed

text \<open>The desired rotation set to the identity through its callback, then a first tick.\<close>

lemma identity_reference_fields:
  "rd_cb [1, 0, 0, 0, 1, 0, 0, 0, 1] example_controller = Some identity_reference"
  "\<not> calc_desired_flag example_controller"
  "current_control_mode identity_reference = POSITION_CONTROL"
  "controller_rate identity_reference = 100"
  "R_c_old identity_reference = zero33"
  "R_d identity_reference = EYE3"
  by (simp_all add: rd_cb_def identity_reference_def EYE3_def example_controller_def
        UavGeometryControl_def setInitialValues_def zero_memory_def)

lemma calculateDesiredAngularVelAndAcc_R_c_old:
  "calc_desired_flag s \<Longrightarrow> current_control_mode s = POSITION_CONTROL \<Longrightarrow>
     R_c_old (calculateDesiredAngularVelAndAcc t_d s) = R_d s"
  by (simp add: calculateDesiredAngularVelAndAcc_def Let_def)

lemma identity_reference_iteration:
  "R_c_old (controller_after
        (runControllerLoop_iteration example_params (1 / 5) (1 / 5) (first_tick, identity_reference)))
       = EYE3"
  by (simp add: iteration_R_c_old_value first_tick_def desiredTimeInterval_def DISCRETIZATION_RATE_def
        calculateDesiredAngularVelAndAcc_R_c_old identity_reference_fields)

theorem desired_rate_estimator_gated_witness:
  "\<not> calc_desired_flag example_controller
   \<and> calculateDesiredAngularVelAndAcc (1 / 10) example_controller = example_controller
   \<and> current_control_mode (ctl_mode_cb 2 (example_controller\<lparr>calc_desired_flag := True\<rparr>)) \<noteq> POSITION_CONTROL
   \<and> calculateDesiredAngularVelAndAcc (1 / 10) (ctl_mode_cb 2 (example_controller\<lparr>calc_desired_flag := True\<rparr>))
       = ctl_mode_cb 2 (example_controller\<lparr>calc_desired_flag := True\<rparr>)
   \<and> rd_cb [1, 0, 0, 0, 1, 0, 0, 0, 1] example_controller = Some identity_reference
   \<and> calc_desired_flag (identity_reference\<lparr>calc_desired_flag := True\<rparr>)
   \<and> current_control_mode (identity_reference\<lparr>calc_desired_flag := True\<rparr>) = POSITION_CONTROL
   \<and> R_c_old identity_reference = zero33
   \<and> R_c_old (calculateDesiredAngularVelAndAcc (1 / 10) (identity_reference\<lparr>calc_desired_flag := True\<rparr>))
       = EYE3
   \<and> R_c_old (controller_after
        (runControllerLoop_iteration example_params (1 / 5) (1 / 5) (first_tick, identity_reference)))
       \<noteq> R_c_old identity_reference
   \<and> desiredTimeInterval \<le> desiredCounter first_tick + (1 / 5 - t_old first_tick)
   \<and> controller_rate identity_reference \<noteq> 0"
proof -
  have m: "current_control_mode (ctl_mode_cb 2 (example_controller\<lparr>calc_desired_flag := True\<rparr>))
             \<noteq> POSITION_CONTROL"
    by (simp add: ctl_mode_cb_def POSITION_CONTROL_def)
  have n: "EYE3 \<noteq> zero33" by (simp add: EYE3_def zero33_def zero3_def)
  have t: "desiredTimeInterval \<le> desiredCounter first_tick + (1 / 5 - t_old first_tick)"
    by (simp add: desiredTimeInterval_def DISCRETIZATION_RATE_def first_tick_def)
  show ?thesis
    using desired_rate_estimator_gated [of example_controller "1 / 10"]
          desired_rate_estimator_gated
            [of "ctl_mode_cb 2 (example_controller\<lparr>calc_desired_flag := True\<rparr>)" "1 / 10"]
          desired_rate_estimator_gated
            [of "identity_reference\<lparr>calc_desired_flag := True\<rparr>" "1 / 10"]
          desired_rate_estimator_gated
            [of identity_reference "1 / 10" example_params "1 / 5" "1 / 5" first_tick]
          m n t
    by (simp add: identity_reference_fields identity_reference_iteration)
qed

subsection \<open>Reconfiguration of the gains\<close>

lemma diagonal_overwrite:
  assumes "is_diagonal K"
  shows "m3_set (m3_set (m3_set K 0 0 a) 1 1 a) 2 2 c = diag3 a a c"
proof -
  obtain k00 k01 k02 k10 k11 k12 k20 k21 k22 where
    K: "K = ((k00, k01, k02), (k10, k11, k12), (k20, k21, k22))" by (rule mat3_cases)
  from assms show ?thesis
    by (simp add: K is_diagonal_def diag3_def zero33_def zero3_def m3_def)
qed

lemma is_diagonal_diag3: "is_diagonal (diag3 a b c)"
  by (simp add: is_diagonal_def diag3_def zero33_def zero3_def m3_def)

lemma m3_set_entries:
  "m3 (m3_set (m3_set (m3_set K 0 0 a) 1 1 a) 2 2 c) 0 0 = a"
  "m3 (m3_set (m3_set (m3_set K 0 0 a) 1 1 a) 2 2 c) 1 1 = a"
  "m3 (m3_set (m3_set (m3_set K 0 0 a) 1 1 a) 2 2 c) 2 2 = c"
proof -
  obtain k00 k01 k02 k10 k11 k12 k20 k21 k22 where
    K: "K = ((k00, k01, k02), (k10, k11, k12), (k20, k21, k22))" by (rule mat3_cases)
  show "m3 (m3_set (m3_set (m3_set K 0 0 a) 1 1 a) 2 2 c) 0 0 = a"
    "m3 (m3_set (m3_set (m3_set K 0 0 a) 1 1 a) 2 2 c) 1 1 = a"
    "m3 (m3_set (m3_set (m3_set K 0 0 a) 1 1 a) 2 2 c) 2 2 = c"
    by (simp_all add: K m3_def)
qed

lemma param_cb_first:
  assumes "\<not> param_start_flag s"
  shows "gains (snd (param_cb config s)) = gains s"
    and "param_start_flag (snd (param_cb config s))"
    and "fst (param_cb config s) =
           \<lparr>kx_xy = m3 (k_x s) 0 0, kx_z = m3 (k_x s) 2 2,
            kv_xy = m3 (k_v s) 0 0, kv_z = m3 (k_v s) 2 2,
            kR_xy = m3 (k_R s) 0 0, kR_z = m3 (k_R s) 2 2,
            kOm_xy = m3 (k_omega s) 0 0, kOm_z = m3 (k_omega s) 2 2\<rparr>"
    and "published (snd (param_cb config s)) = published s @ [UpdateConfig (fst (param_cb config s))]"
  using assms by (simp_all add: param_cb_def gains_def publish_def Let_def)

lemma param_cb_later:
  assumes "param_start_flag s"
  shows "param_start_flag (snd (param_cb config s))"
    and "fst (param_cb config s) = config"
    and "gains_diagonal s \<Longrightarrow> gains (snd (param_cb config s)) = gains_of_config config"
    and "gains_diagonal (snd (param_cb config s)) = gains_diagonal s"
proof -
  show "param_start_flag (snd (param_cb config s))" "fst (param_cb config s) = config"
    using assms by (simp_all add: param_cb_def)
  show "gains (snd (param_cb config s)) = gains_of_config config" if "gains_diagonal s"
    using assms that
    by (simp add: param_cb_def gains_def gains_of_config_def gains_diagonal_def diagonal_overwrite
          del: One_nat_def)
  show "gains_diagonal (snd (param_cb config s)) = gains_diagonal s"
  proof -
    have d: "is_diagonal (m3_set (m3_set (m3_set K 0 0 a) 1 1 a) 2 2 c) = is_diagonal K" for K a c
    proof -
      obtain k00 k01 k02 k10 k11 k12 k20 k21 k22 where
        K: "K = ((k00, k01, k02), (k10, k11, k12), (k20, k21, k22))" by (rule mat3_cases)
      show ?thesis by (simp add: K is_diagonal_def diag3_def zero33_def zero3_def m3_def)
    qed
    show ?thesis using assms by (simp add: param_cb_def gains_diagonal_def d del: One_nat_def)
  qed
qed

lemma param_cb_all_later:
  "param_start_flag s \<Longrightarrow> gains_diagonal s \<Longrightarrow> configs \<noteq> [] \<Longrightarrow>
     gains (param_cb_all configs s) = gains_of_config (last configs)"
proof (induction configs arbitrary: s)
  case Nil
  then show ?case by simp
next
  case (Cons config rest)
  let ?s = "snd (param_cb config s)"
  have f: "param_start_flag ?s" and d: "gains_diagonal ?s"
    and g: "gains ?s = gains_of_config config"
    using Cons.prems(1,2) by (simp_all add: param_cb_later)
  show ?case
  proof (cases rest)
    case Nil
    with g show ?thesis by simp
  next
    case (Cons c cs)
    then have "rest \<noteq> []" by simp
    with Cons.IH [OF f d] show ?thesis by simp
  qed
qed

text \<open>
  C9. The first call of the parameter callback (\<open>param_start_flag\<close> down) leaves the
  four gain matrices as they are, writes their entries xx and zz into the request that
  it reports back, and raises the flag. Every later call (flag up) overwrites each gain
  matrix: the entries xx and yy become the xy value of the request and zz its z value,
  the other entries are not written, so a diagonal matrix stays diagonal. After
  construction the gains are diagonal and the flag is down, so from the second request on
  the gains are the diagonal matrices of the last request.
\<close>

theorem gain_reconfiguration:
  "(\<not> param_start_flag s \<longrightarrow>
      gains (snd (param_cb config s)) = gains s
    \<and> kx_xy (fst (param_cb config s)) = m3 (k_x s) 0 0 \<and> kx_z (fst (param_cb config s)) = m3 (k_x s) 2 2
    \<and> kv_xy (fst (param_cb config s)) = m3 (k_v s) 0 0 \<and> kv_z (fst (param_cb config s)) = m3 (k_v s) 2 2
    \<and> kR_xy (fst (param_cb config s)) = m3 (k_R s) 0 0 \<and> kR_z (fst (param_cb config s)) = m3 (k_R s) 2 2
    \<and> kOm_xy (fst (param_cb config s)) = m3 (k_omega s) 0 0
    \<and> kOm_z (fst (param_cb config s)) = m3 (k_omega s) 2 2
    \<and> published (snd (param_cb config s)) = published s @ [UpdateConfig (fst (param_cb config s))]
    \<and> param_start_flag (snd (param_cb config s)))
   \<and> (param_start_flag s \<longrightarrow>
        m3 (k_x (snd (param_cb config s))) 0 0 = kx_xy config
      \<and> m3 (k_x (snd (param_cb config s))) 1 1 = kx_xy config
      \<and> m3 (k_x (snd (param_cb config s))) 2 2 = kx_z config
      \<and> m3 (k_v (snd (param_cb config s))) 0 0 = kv_xy config
      \<and> m3 (k_v (snd (param_cb config s))) 1 1 = kv_xy config
      \<and> m3 (k_v (snd (param_cb config s))) 2 2 = kv_z config
      \<and> m3 (k_R (snd (param_cb config s))) 0 0 = kR_xy config
      \<and> m3 (k_R (snd (param_cb config s))) 1 1 = kR_xy config
      \<and> m3 (k_R (snd (param_cb config s))) 2 2 = kR_z config
      \<and> m3 (k_omega (snd (param_cb config s))) 0 0 = kOm_xy config
      \<and> m3 (k_omega (snd (param_cb config s))) 1 1 = kOm_xy config
      \<and> m3 (k_omega (snd (param_cb config s))) 2 2 = kOm_z config
      \<and> gains_diagonal (snd (param_cb config s)) = gains_diagonal s
      \<and> param_start_flag (snd (param_cb config s)))
   \<and> gains_diagonal (UavGeometryControl P rate s0)
   \<and> \<not> param_start_flag (UavGeometryControl P rate s0)
   \<and> gains (param_cb_all [config] (UavGeometryControl P rate s0)) = gains (UavGeometryControl P rate s0)
   \<and> (later \<noteq> [] \<longrightarrow>
        gains (param_cb_all (config # later) (UavGeometryControl P rate s0)) = gains_of_config (last later))"
proof -
  let ?c = "UavGeometryControl P rate s0"
  have c: "gains_diagonal ?c" "\<not> param_start_flag ?c"
    by (simp_all add: UavGeometryControl_def setInitialValues_def gains_diagonal_def Let_def
          is_diagonal_diag3)
  have first: "gains (param_cb_all [config] ?c) = gains ?c"
    using c(2) by (simp add: param_cb_first)
  have seq: "gains (param_cb_all (config # later) ?c) = gains_of_config (last later)" if "later \<noteq> []"
  proof -
    let ?s = "snd (param_cb config ?c)"
    have "param_start_flag ?s" using c(2) by (rule param_cb_first)
    moreover have "gains_diagonal ?s"
      using param_cb_first(1) [OF c(2), of config] c(1) by (simp add: gains_def gains_diagonal_def)
    ultimately show ?thesis using that by (simp add: param_cb_all_later)
  qed
  have a: "\<not> param_start_flag s \<longrightarrow>
      gains (snd (param_cb config s)) = gains s
    \<and> kx_xy (fst (param_cb config s)) = m3 (k_x s) 0 0 \<and> kx_z (fst (param_cb config s)) = m3 (k_x s) 2 2
    \<and> kv_xy (fst (param_cb config s)) = m3 (k_v s) 0 0 \<and> kv_z (fst (param_cb config s)) = m3 (k_v s) 2 2
    \<and> kR_xy (fst (param_cb config s)) = m3 (k_R s) 0 0 \<and> kR_z (fst (param_cb config s)) = m3 (k_R s) 2 2
    \<and> kOm_xy (fst (param_cb config s)) = m3 (k_omega s) 0 0
    \<and> kOm_z (fst (param_cb config s)) = m3 (k_omega s) 2 2
    \<and> published (snd (param_cb config s)) = published s @ [UpdateConfig (fst (param_cb config s))]
    \<and> param_start_flag (snd (param_cb config s))"
    by (simp add: param_cb_first)
  have b: "param_start_flag s \<longrightarrow>
        m3 (k_x (snd (param_cb config s))) 0 0 = kx_xy config
      \<and> m3 (k_x (snd (param_cb config s))) 1 1 = kx_xy config
      \<and> m3 (k_x (snd (param_cb config s))) 2 2 = kx_z config
      \<and> m3 (k_v (snd (param_cb config s))) 0 0 = kv_xy config
      \<and> m3 (k_v (snd (param_cb config s))) 1 1 = kv_xy config
      \<and> m3 (k_v (snd (param_cb config s))) 2 2 = kv_z config
      \<and> m3 (k_R (snd (param_cb config s))) 0 0 = kR_xy config
      \<and> m3 (k_R (snd (param_cb config s))) 1 1 = kR_xy config
      \<and> m3 (k_R (snd (param_cb config s))) 2 2 = kR_z config
      \<and> m3 (k_omega (snd (param_cb config s))) 0 0 = kOm_xy config
      \<and> m3 (k_omega (snd (param_cb config s))) 1 1 = kOm_xy config
      \<and> m3 (k_omega (snd (param_cb config s))) 2 2 = kOm_z config
      \<and> gains_diagonal (snd (param_cb config s)) = gains_diagonal s
      \<and> param_start_flag (snd (param_cb config s))"
  proof
    assume f: "param_start_flag s"
    have "m3 (k_x (snd (param_cb config s))) 0 0 = kx_xy config
      \<and> m3 (k_x (snd (param_cb config s))) 1 1 = kx_xy config
      \<and> m3 (k_x (snd (param_cb config s))) 2 2 = kx_z config
      \<and> m3 (k_v (snd (param_cb config s))) 0 0 = kv_xy config
      \<and> m3 (k_v (snd (param_cb config s))) 1 1 = kv_xy config
      \<and> m3 (k_v (snd (param_cb config s))) 2 2 = kv_z config
      \<and> m3 (k_R (snd (param_cb config s))) 0 0 = kR_xy config
      \<and> m3 (k_R (snd (param_cb config s))) 1 1 = kR_xy config
      \<and> m3 (k_R (snd (param_cb config s))) 2 2 = kR_z config
      \<and> m3 (k_omega (snd (param_cb config s))) 0 0 = kOm_xy config
      \<and> m3 (k_omega (snd (param_cb config s))) 1 1 = kOm_xy config
      \<and> m3 (k_omega (snd (param_cb config s))) 2 2 = kOm_z config"
      by (simp add: f param_cb_def m3_set_entries del: One_nat_def)
    with param_cb_later(1) [OF f, of config] param_cb_later(4) [OF f, of config]
    show "m3 (k_x (snd (param_cb config s))) 0 0 = kx_xy config
      \<and> m3 (k_x (snd (param_cb config s))) 1 1 = kx_xy config
      \<and> m3 (k_x (snd (param_cb config s))) 2 2 = kx_z config
      \<and> m3 (k_v (snd (param_cb config s))) 0 0 = kv_xy config
      \<and> m3 (k_v (snd (param_cb config s))) 1 1 = kv_xy config
      \<and> m3 (k_v (snd (param_cb config s))) 2 2 = kv_z config
      \<and> m3 (k_R (snd (param_cb config s))) 0 0 = kR_xy config
      \<and> m3 (k_R (snd (param_cb config s))) 1 1 = kR_xy config
      \<and> m3 (k_R (snd (param_cb config s))) 2 2 = kR_z config
      \<and> m3 (k_omega (snd (param_cb config s))) 0 0 = kOm_xy config
      \<and> m3 (k_omega (snd (param_cb config s))) 1 1 = kOm_xy config
      \<and> m3 (k_omega (snd (param_cb config s))) 2 2 = kOm_z config
      \<and> gains_diagonal (snd (param_cb config s)) = gains_diagonal s
      \<and> param_start_flag (snd (param_cb config s))"
      by blast
  qed
  from a b c first seq show ?thesis by blast
qed

theorem gain_reconfiguration_witness:
  "\<not> param_start_flag example_controller
   \<and> gains (snd (param_cb example_config example_controller)) = gains example_controller
   \<and> k_x (snd (param_cb example_config example_controller)) = ((7.2, 0, 0), (0, 7.2, 0), (0, 0, 50))
   \<and> fst (param_cb example_config example_controller) =
        \<lparr>kx_xy = 7.2, kx_z = 50, kv_xy = 2.6, kv_z = 20, kR_xy = 1.52, kR_z = 12,
         kOm_xy = 0.65, kOm_z = 1.54\<rparr>
   \<and> param_start_flag (snd (param_cb example_config example_controller))
   \<and> k_x (snd (param_cb example_config (snd (param_cb example_config example_controller))))
        = ((8, 0, 0), (0, 8, 0), (0, 0, 40))
   \<and> k_omega (snd (param_cb example_config (snd (param_cb example_config example_controller))))
        = ((1, 0, 0), (0, 1, 0), (0, 0, 2))
   \<and> gains (param_cb_all [example_config, example_config] example_controller)
        = gains_of_config example_config"
  using gain_reconfiguration [of example_controller example_config example_params 100 zero_memory "[example_config]"]
        gain_reconfiguration [of "snd (param_cb example_config example_controller)" example_config
           example_params 100 zero_memory "[example_config]"]
  by (simp add: example_controller_def [symmetric])
     (simp add: example_controller_def UavGeometryControl_def setInitialValues_def zero_memory_def
        example_config_def param_cb_def gains_def gains_of_config_def diag3_def zero33_def zero3_def
        m3_def publish_def Let_def)

end
